theory Spec2Isabelle
  imports Complex_Main "HOL-Library.Multiset"
begin

section \<open>Data model (shared/types.ts)\<close>

text \<open>
  Strings are \<open>string\<close>; a character stands for the UTF-16 code unit of the same
  number, so the model covers the strings whose code units are below 256.
\<close>

text \<open>\<^verbatim>\<open>type BookStatus = 'want-to-read' | 'currently-reading' | 'have-read'\<close>\<close>

datatype BookStatus = WantToRead | CurrentlyReading | HaveRead

text \<open>
  \<^verbatim>\<open>interface Book\<close>. The field \<^verbatim>\<open>id\<close> is named \<open>id_book\<close>, since \<open>id\<close> is
  the identity function of HOL.
\<close>

record Book =
  id_book :: string
  title :: string
  author :: string
  publishedDate :: string
  description :: string
  thumbnail :: string
  status :: BookStatus

text \<open>
  \<^verbatim>\<open>interface BookCollectionState\<close>. The element type is a parameter: the reducer
  works on \<open>Book\<close>, while the state read back from storage holds whatever
  \<^verbatim>\<open>JSON.parse\<close> returned (the cast to \<^verbatim>\<open>Book[]\<close> is unchecked at run time).
  \<^verbatim>\<open>error: string | null\<close> is an option.
\<close>

record 'b BookCollectionState =
  books :: "'b list"
  searchResults :: "'b list"
  isLoading :: bool
  error :: "string option"
  currentlyReading :: "'b list"
  wantToRead :: "'b list"
  haveRead :: "'b list"

section \<open>The reducer (contexts/BookCollectionContext.tsx)\<close>

text \<open>
  \<^verbatim>\<open>computeDerivedArrays\<close> returns an object of three arrays; here a triple in the
  order the source lists them: currentlyReading, wantToRead, haveRead.
\<close>

definition computeDerivedArrays :: "Book list \<Rightarrow> Book list \<times> Book list \<times> Book list" where
  "computeDerivedArrays bs =
     (filter (\<lambda>b. status b = CurrentlyReading) bs,
      filter (\<lambda>b. status b = WantToRead) bs,
      filter (\<lambda>b. status b = HaveRead) bs)"

text \<open>The spread \<^verbatim>\<open>...computeDerivedArrays(updatedBooks)\<close> into a state literal.\<close>

definition spreadDerived ::
  "'b list \<times> 'b list \<times> 'b list \<Rightarrow> 'b BookCollectionState \<Rightarrow> 'b BookCollectionState" where
  "spreadDerived d s =
     (case d of (cr, wtr, hr) \<Rightarrow> s\<lparr>currentlyReading := cr, wantToRead := wtr, haveRead := hr\<rparr>)"

definition initialState :: "'b BookCollectionState" where
  "initialState =
     \<lparr>books = [], searchResults = [], isLoading = False, error = None,
      currentlyReading = [], wantToRead = [], haveRead = []\<rparr>"

datatype Action =
    ADD_BOOK Book
  | REMOVE_BOOK string
  | UPDATE_BOOK_STATUS string BookStatus
  | SET_SEARCH_RESULTS "Book list"
  | SET_LOADING bool
  | SET_ERROR "string option"
  | CLEAR_SEARCH
  | LOAD_FROM_STORAGE "Book list"

fun bookCollectionReducer :: "Book BookCollectionState \<Rightarrow> Action \<Rightarrow> Book BookCollectionState" where
  "bookCollectionReducer state (ADD_BOOK payload) =
     (let updatedBooks = filter (\<lambda>book. id_book book \<noteq> id_book payload) (books state) @ [payload]
      in spreadDerived (computeDerivedArrays updatedBooks) (state\<lparr>books := updatedBooks\<rparr>))"
| "bookCollectionReducer state (REMOVE_BOOK payload) =
     (let updatedBooks = filter (\<lambda>book. id_book book \<noteq> payload) (books state)
      in spreadDerived (computeDerivedArrays updatedBooks) (state\<lparr>books := updatedBooks\<rparr>))"
| "bookCollectionReducer state (UPDATE_BOOK_STATUS i st) =
     (let updatedBooks =
        map (\<lambda>book. if id_book book = i then book\<lparr>status := st\<rparr> else book) (books state)
      in spreadDerived (computeDerivedArrays updatedBooks) (state\<lparr>books := updatedBooks\<rparr>))"
| "bookCollectionReducer state (SET_SEARCH_RESULTS payload) =
     state\<lparr>searchResults := payload, isLoading := False, error := None\<rparr>"
| "bookCollectionReducer state (SET_LOADING payload) = state\<lparr>isLoading := payload\<rparr>"
| "bookCollectionReducer state (SET_ERROR payload) = state\<lparr>error := payload, isLoading := False\<rparr>"
| "bookCollectionReducer state CLEAR_SEARCH = state\<lparr>searchResults := [], error := None\<rparr>"
| "bookCollectionReducer state (LOAD_FROM_STORAGE payload) =
     spreadDerived (computeDerivedArrays payload) (state\<lparr>books := payload\<rparr>)"

text \<open>
  The states the store can hold: \<open>initialState\<close>, and every state the reducer
  returns from one of them for some action.
\<close>

inductive reachable :: "Book BookCollectionState \<Rightarrow> bool" where
  init: "reachable initialState"
| step: "reachable s \<Longrightarrow> reachable (bookCollectionReducer s a)"

text \<open>The derived fields agree with \<open>books\<close>.\<close>

definition derivedOk :: "Book BookCollectionState \<Rightarrow> bool" where
  "derivedOk s \<longleftrightarrow>
     (currentlyReading s, wantToRead s, haveRead s) = computeDerivedArrays (books s)"


section \<open>The mapping adapter (utils/bookMappers.ts)\<close>

text \<open>
  \<^verbatim>\<open>interface GoogleBookItem\<close>: an optional property is an option. Field names that
  \<open>Book\<close> already uses carry a suffix.
\<close>

record ImageLinks =
  thumbnail_il :: "string option"
  smallThumbnail :: "string option"

record VolumeInfo =
  title_vi :: string
  authors :: "string list option"
  publishedDate_vi :: "string option"
  description_vi :: "string option"
  imageLinks :: "ImageLinks option"
  categories :: "string list option"
  publisher :: "string option"
  industryIdentifiers :: "(string \<times> string) list option"

record GoogleBookItem =
  id_item :: string
  volumeInfo :: VolumeInfo

text \<open>\<^verbatim>\<open>Array.prototype.join\<close> on an array of strings.\<close>

fun join :: "string \<Rightarrow> string list \<Rightarrow> string" where
  "join sep [] = []"
| "join sep [x] = x"
| "join sep (x # y # ys) = x @ sep @ join sep (y # ys)"

text \<open>
  \<^verbatim>\<open>a || b\<close> where \<^verbatim>\<open>a\<close> is a string or \<^verbatim>\<open>undefined\<close>: both
  \<^verbatim>\<open>undefined\<close> and the empty string are falsy.
\<close>

definition js_or :: "string option \<Rightarrow> string \<Rightarrow> string" where
  "js_or a b = (case a of None \<Rightarrow> b | Some s \<Rightarrow> if s = [] then b else s)"

text \<open>
  The second argument is \<open>None\<close> when the caller omits it; the default parameter
  \<^verbatim>\<open>status: BookStatus = 'want-to-read'\<close> then applies.
\<close>

definition mapGoogleBookToBook :: "GoogleBookItem \<Rightarrow> BookStatus option \<Rightarrow> Book" where
  "mapGoogleBookToBook item st =
     \<lparr>id_book = id_item item,
      title = title_vi (volumeInfo item),
      author = js_or (map_option (join '', '') (authors (volumeInfo item))) ''Unknown Author'',
      publishedDate = js_or (publishedDate_vi (volumeInfo item)) ''Unknown Date'',
      description = js_or (description_vi (volumeInfo item)) ''No description available'',
      thumbnail = js_or (Option.bind (imageLinks (volumeInfo item)) thumbnail_il)
                    ''https://via.placeholder.com/128x192.png?text=No+Cover'',
      status = (case st of None \<Rightarrow> WantToRead | Some s \<Rightarrow> s)\<rparr>"

section \<open>Thrown values and effects\<close>

text \<open>
  What a \<^verbatim>\<open>catch\<close> clause can receive: an \<^verbatim>\<open>Error\<close> that is not a
  \<^verbatim>\<open>DOMException\<close> (name, message), a \<^verbatim>\<open>DOMException\<close> (name, message),
  or a value that is no \<^verbatim>\<open>Error\<close> at all.
\<close>

datatype thrown =
    ErrorObject string string
  | DOMExceptionObject string string
  | NonError

text \<open>\<^verbatim>\<open>interface SearchParams\<close>; numbers are integers here.\<close>

datatype OrderBy = Relevance | Newest

record SearchParams =
  q :: string
  startIndex :: "int option"
  maxResults :: "int option"
  printType :: "string option"
  orderBy :: "OrderBy option"

text \<open>
  \<^verbatim>\<open>interface GoogleBooksResponse\<close>. The interface declares \<^verbatim>\<open>items\<close> as always
  present, but \<^verbatim>\<open>searchBooks\<close> tests \<^verbatim>\<open>!response.items\<close>, so it is an option.
\<close>

record GoogleBooksResponse =
  kind :: string
  totalItems :: int
  items :: "GoogleBookItem list option"

text \<open>How an awaited promise settles.\<close>

datatype 'a settled = Resolved 'a | Rejected thrown

text \<open>
  The external collaborator: \<^verbatim>\<open>booksApi.searchBooks\<close> of whichever api
  \<^verbatim>\<open>getBooksApi\<close> resolves to (\<^verbatim>\<open>getBooksApi\<close> itself catches every failure
  and never rejects).
\<close>

type_synonym BooksApi = "SearchParams \<Rightarrow> GoogleBooksResponse settled"

text \<open>What an operation of the provider does, in order.\<close>

datatype effect =
    Dispatch Action
  | CallSearchBooks SearchParams
  | ConsoleError string thrown

text \<open>The reducer applied to the dispatched actions, in order.\<close>

fun runEffects :: "Book BookCollectionState \<Rightarrow> effect list \<Rightarrow> Book BookCollectionState" where
  "runEffects s [] = s"
| "runEffects s (Dispatch a # es) = runEffects (bookCollectionReducer s a) es"
| "runEffects s (CallSearchBooks p # es) = runEffects s es"
| "runEffects s (ConsoleError l e # es) = runEffects s es"

section \<open>searchBooks\<close>

text \<open>
  \<^verbatim>\<open>String.prototype.trim\<close> strips white space and line terminators from both
  ends; among the code units below 256 these are TAB, LF, VT, FF, CR, SP and NBSP.
\<close>

definition isWhiteSpace :: "char \<Rightarrow> bool" where
  "isWhiteSpace c \<longleftrightarrow>
     c \<in> set [CHR 0x09, CHR 0x0A, CHR 0x0B, CHR 0x0C, CHR 0x0D, CHR 0x20, CHR 0xA0]"

definition trim :: "string \<Rightarrow> string" where
  "trim s = rev (dropWhile isWhiteSpace (rev (dropWhile isWhiteSpace s)))"

text \<open>\<^verbatim>\<open>error instanceof Error ? error.message : '...'\<close>; a DOMException is an Error.\<close>

fun searchErrorMessage :: "thrown \<Rightarrow> string" where
  "searchErrorMessage (ErrorObject n m) = m"
| "searchErrorMessage (DOMExceptionObject n m) = m"
| "searchErrorMessage NonError = ''An unknown error occurred while searching''"

text \<open>The effects of one call of \<^verbatim>\<open>searchBooks(query)\<close>, in the order they happen.\<close>

definition searchBooks :: "BooksApi \<Rightarrow> string \<Rightarrow> effect list" where
  "searchBooks booksApi query =
     (if trim query = [] then [Dispatch CLEAR_SEARCH]
      else
        let params = \<lparr>q = query, startIndex = None, maxResults = Some 10,
                       printType = None, orderBy = None\<rparr>
        in Dispatch (SET_LOADING True) # CallSearchBooks params #
           (case booksApi params of
              Resolved response \<Rightarrow>
                (case items response of
                   None \<Rightarrow>
                     [Dispatch (SET_SEARCH_RESULTS []),
                      Dispatch (SET_ERROR (Some ''No books found matching your search.''))]
                 | Some its \<Rightarrow>
                     if length its = 0 then
                       [Dispatch (SET_SEARCH_RESULTS []),
                        Dispatch (SET_ERROR (Some ''No books found matching your search.''))]
                     else
                       [Dispatch (SET_SEARCH_RESULTS
                          (map (\<lambda>item. mapGoogleBookToBook item None) its))])
            | Rejected e \<Rightarrow>
                [ConsoleError ''Search error:'' e,
                 Dispatch (SET_ERROR (Some (searchErrorMessage e))),
                 Dispatch (SET_SEARCH_RESULTS [])]))"

text \<open>The state once every dispatch of the call has gone through the reducer.\<close>

definition stateAfterSearch ::
  "BooksApi \<Rightarrow> string \<Rightarrow> Book BookCollectionState \<Rightarrow> Book BookCollectionState" where
  "stateAfterSearch booksApi query s = runEffects s (searchBooks booksApi query)"


section \<open>Persistence: localStorage and JSON\<close>

text \<open>
  The values \<^verbatim>\<open>JSON.parse\<close> can return. An object is the list of its own
  properties in insertion order. The code never looks inside a number.
\<close>

datatype jsval =
    JNull
  | JBool bool
  | JNum real
  | JStr string
  | JArr "jsval list"
  | JObj "(string \<times> jsval) list"

text \<open>A \<open>Book\<close> as the run-time object it is, its properties in the order of the interface.\<close>

fun statusString :: "BookStatus \<Rightarrow> string" where
  "statusString WantToRead = ''want-to-read''"
| "statusString CurrentlyReading = ''currently-reading''"
| "statusString HaveRead = ''have-read''"

definition bookToJS :: "Book \<Rightarrow> jsval" where
  "bookToJS b =
     JObj [(''id'', JStr (id_book b)), (''title'', JStr (title b)), (''author'', JStr (author b)),
           (''publishedDate'', JStr (publishedDate b)), (''description'', JStr (description b)),
           (''thumbnail'', JStr (thumbnail b)), (''status'', JStr (statusString (status b)))]"

text \<open>
  \<^verbatim>\<open>localStorage\<close> is a map from keys to strings; \<^verbatim>\<open>getItem\<close> is the lookup,
  \<open>None\<close> for \<^verbatim>\<open>null\<close>.
\<close>

type_synonym Storage = "string \<rightharpoonup> string"

definition STORAGE_KEY :: string where
  "STORAGE_KEY = ''codecaddy_book_collection''"

text \<open>
  The host functions the provider calls, which are no code of this repository:
  \<^verbatim>\<open>JSON.parse\<close> (it throws on a text that is not JSON), \<^verbatim>\<open>JSON.stringify\<close>,
  and \<^verbatim>\<open>localStorage.setItem\<close> on a given storage (it throws when the host rejects
  the write, for one when the quota is exceeded).
\<close>

record Platform =
  JSON_parse :: "string \<Rightarrow> thrown + jsval"
  JSON_stringify :: "jsval \<Rightarrow> string"
  setItem :: "Storage \<Rightarrow> string \<Rightarrow> string \<Rightarrow> thrown + Storage"

text \<open>
  \<^verbatim>\<open>b.status\<close> at run time: a TypeError on \<^verbatim>\<open>null\<close>, the own property of an
  object (\<open>None\<close> for \<^verbatim>\<open>undefined\<close>), and \<^verbatim>\<open>undefined\<close> on every other value
  (no prototype defines \<^verbatim>\<open>status\<close>).
\<close>

fun getStatus :: "jsval \<Rightarrow> thrown + jsval option" where
  "getStatus JNull =
     Inl (ErrorObject ''TypeError'' ''Cannot read properties of null'')"
| "getStatus (JObj props) = Inr (map_of props ''status'')"
| "getStatus v = Inr None"

text \<open>
  \<^verbatim>\<open>books.filter(b => b.status === st)\<close> on unchecked values: the first element whose
  property read throws ends the filter.
\<close>

fun filterByStatus :: "string \<Rightarrow> jsval list \<Rightarrow> thrown + jsval list" where
  "filterByStatus st [] = Inr []"
| "filterByStatus st (b # bs) =
     (case getStatus b of
        Inl e \<Rightarrow> Inl e
      | Inr v \<Rightarrow>
          (case filterByStatus st bs of
             Inl e \<Rightarrow> Inl e
           | Inr r \<Rightarrow> Inr (if v = Some (JStr st) then b # r else r)))"

text \<open>\<^verbatim>\<open>computeDerivedArrays\<close> as it runs on the array \<^verbatim>\<open>JSON.parse\<close> returned.\<close>

definition computeDerivedArraysJS ::
  "jsval list \<Rightarrow> thrown + (jsval list \<times> jsval list \<times> jsval list)" where
  "computeDerivedArraysJS bs =
     (case filterByStatus ''currently-reading'' bs of
        Inl e \<Rightarrow> Inl e
      | Inr cr \<Rightarrow>
          (case filterByStatus ''want-to-read'' bs of
             Inl e \<Rightarrow> Inl e
           | Inr wtr \<Rightarrow>
               (case filterByStatus ''have-read'' bs of
                  Inl e \<Rightarrow> Inl e
                | Inr hr \<Rightarrow> Inr (cr, wtr, hr))))"

text \<open>
  The \<^verbatim>\<open>try\<close> block of \<^verbatim>\<open>loadInitialState\<close>: \<open>Inl\<close> when a statement throws,
  \<open>Inr (Some s)\<close> when it returns \<open>s\<close>, \<open>Inr None\<close> when control leaves the block.
  A string is truthy when it is not empty.
\<close>

definition loadAttempt :: "Platform \<Rightarrow> Storage \<Rightarrow> thrown + jsval BookCollectionState option" where
  "loadAttempt P storage =
     (case storage STORAGE_KEY of
        None \<Rightarrow> Inr None
      | Some savedBooks \<Rightarrow>
          if savedBooks = [] then Inr None
          else
            (case JSON_parse P savedBooks of
               Inl e \<Rightarrow> Inl e
             | Inr (JArr bs) \<Rightarrow>
                 (case computeDerivedArraysJS bs of
                    Inl e \<Rightarrow> Inl e
                  | Inr d \<Rightarrow> Inr (Some (spreadDerived d (initialState\<lparr>books := bs\<rparr>))))
             | Inr v \<Rightarrow> Inr None))"

text \<open>
  \<^verbatim>\<open>loadInitialState\<close>: the state it returns and what it wrote to the console. The
  \<^verbatim>\<open>catch\<close> clause logs and falls through to \<^verbatim>\<open>return initialState\<close>.
\<close>

definition loadInitialState :: "Platform \<Rightarrow> Storage \<Rightarrow> jsval BookCollectionState \<times> effect list" where
  "loadInitialState P storage =
     (case loadAttempt P storage of
        Inl e \<Rightarrow> (initialState, [ConsoleError ''Failed to load books from localStorage:'' e])
      | Inr (Some s) \<Rightarrow> (s, [])
      | Inr None \<Rightarrow> (initialState, []))"

text \<open>
  The save effect, run with \<^verbatim>\<open>state.books = bs\<close>: the storage afterwards and the
  effects. A \<^verbatim>\<open>setItem\<close> that throws leaves the storage as it was.
\<close>

definition saveBooks :: "Platform \<Rightarrow> Storage \<Rightarrow> Book list \<Rightarrow> Storage \<times> effect list" where
  "saveBooks P storage bs =
     (case setItem P storage STORAGE_KEY (JSON_stringify P (JArr (map bookToJS bs))) of
        Inr storage' \<Rightarrow> (storage', [])
      | Inl e \<Rightarrow>
          (storage,
           ConsoleError ''Failed to save books to localStorage:'' e #
           (case e of
              DOMExceptionObject n m \<Rightarrow>
                if n = ''QuotaExceededError'' then
                  [Dispatch (SET_ERROR (Some ''Storage quota exceeded. Please remove some books.''))]
                else []
            | _ \<Rightarrow> [])))"


section \<open>A model of the JSON functions\<close>

text \<open>
  \<^verbatim>\<open>JSON.stringify\<close> and \<^verbatim>\<open>JSON.parse\<close> as ECMAScript defines them, on the
  model's strings. Numbers are floating point, which the model leaves open: \<open>numText\<close>
  writes a number and \<open>numVal\<close> reads a numeric literal, both parameters. The code never
  looks inside a number and no \<open>Book\<close> holds one.

  QuoteJSONString: the quote, the backslash and the control characters are escaped, the
  control characters without a short escape as \<^verbatim>\<open>\u00XX\<close> in lower-case hexadecimal.
\<close>

definition hexDigit :: "nat \<Rightarrow> char" where
  "hexDigit n = ''0123456789abcdef'' ! (n mod 16)"

definition quoteChar :: "char \<Rightarrow> string" where
  "quoteChar c =
     (if c = CHR 0x08 then [CHR 0x5C, CHR ''b'']
      else if c = CHR 0x09 then [CHR 0x5C, CHR ''t'']
      else if c = CHR 0x0A then [CHR 0x5C, CHR ''n'']
      else if c = CHR 0x0C then [CHR 0x5C, CHR ''f'']
      else if c = CHR 0x0D then [CHR 0x5C, CHR ''r'']
      else if c = CHR 0x22 then [CHR 0x5C, CHR 0x22]
      else if c = CHR 0x5C then [CHR 0x5C, CHR 0x5C]
      else if (of_char c :: nat) < 0x20 then
        [CHR 0x5C, CHR ''u'', CHR ''0'', CHR ''0'',
         hexDigit (of_char c div 16), hexDigit (of_char c mod 16)]
      else [c])"

definition quoteJSONString :: "string \<Rightarrow> string" where
  "quoteJSONString s = CHR 0x22 # concat (map quoteChar s) @ [CHR 0x22]"

text \<open>
  SerializeJSONProperty without indentation: the elements of an array and the properties
  of an object, in order, separated by commas.
\<close>

fun jsonStringify :: "(real \<Rightarrow> string) \<Rightarrow> jsval \<Rightarrow> string" where
  "jsonStringify numText JNull = ''null''"
| "jsonStringify numText (JBool b) = (if b then ''true'' else ''false'')"
| "jsonStringify numText (JNum r) = numText r"
| "jsonStringify numText (JStr s) = quoteJSONString s"
| "jsonStringify numText (JArr vs) = ''['' @ join '','' (map (jsonStringify numText) vs) @ '']''"
| "jsonStringify numText (JObj ps) =
     ''{'' @ join '','' (map (\<lambda>(k, v). quoteJSONString k @ '':'' @ jsonStringify numText v) ps) @ ''}''"

text \<open>
  \<^verbatim>\<open>JSON.parse\<close> in two passes: the text is cut into tokens, then the tokens are read
  by recursive descent.
\<close>

datatype token =
    LBracket | RBracket | LBrace | RBrace | Colon | Comma
  | TNull | TTrue | TFalse
  | TStr string
  | TNum string

definition hexVal :: "char \<Rightarrow> nat option" where
  "hexVal c =
     (let n = (of_char c :: nat) in
      if 0x30 \<le> n \<and> n \<le> 0x39 then Some (n - 0x30)
      else if 0x61 \<le> n \<and> n \<le> 0x66 then Some (n - 0x61 + 10)
      else if 0x41 \<le> n \<and> n \<le> 0x46 then Some (n - 0x41 + 10)
      else None)"

definition hex4 :: "char \<Rightarrow> char \<Rightarrow> char \<Rightarrow> char \<Rightarrow> nat option" where
  "hex4 a b c d =
     (case (hexVal a, hexVal b, hexVal c, hexVal d) of
        (Some w, Some x, Some y, Some z) \<Rightarrow> Some (((w * 16 + x) * 16 + y) * 16 + z)
      | _ \<Rightarrow> None)"

definition unescape :: "char \<Rightarrow> char option" where
  "unescape e =
     (if e = CHR 0x22 then Some (CHR 0x22)
      else if e = CHR 0x5C then Some (CHR 0x5C)
      else if e = CHR ''/'' then Some (CHR ''/'')
      else if e = CHR ''b'' then Some (CHR 0x08)
      else if e = CHR ''f'' then Some (CHR 0x0C)
      else if e = CHR ''n'' then Some (CHR 0x0A)
      else if e = CHR ''r'' then Some (CHR 0x0D)
      else if e = CHR ''t'' then Some (CHR 0x09)
      else None)"

text \<open>
  The characters of a string literal after its opening quote, up to the closing quote:
  the decoded string and the text after it. An unescaped control character, an unknown
  escape and an unfinished literal are syntax errors (\<open>None\<close>). A \<^verbatim>\<open>\uXXXX\<close> escape
  above \<^verbatim>\<open>00FF\<close> names a code unit outside the model's strings; the model answers
  \<open>None\<close> there, which \<^verbatim>\<open>JSON.parse\<close> does not.
\<close>

definition consChar :: "char \<Rightarrow> (string \<times> string) option \<Rightarrow> (string \<times> string) option" where
  "consChar c r = map_option (\<lambda>(s, rest). (c # s, rest)) r"

fun scanString :: "string \<Rightarrow> (string \<times> string) option" where
  "scanString [] = None"
| "scanString (c # cs) =
     (if c = CHR 0x22 then Some ([], cs)
      else if c = CHR 0x5C then
        (case cs of
           [] \<Rightarrow> None
         | e # es \<Rightarrow>
             if e = CHR ''u'' then
               (case es of
                  h1 # h2 # h3 # h4 # r \<Rightarrow>
                    (case hex4 h1 h2 h3 h4 of
                       None \<Rightarrow> None
                     | Some n \<Rightarrow> if n < 256 then consChar (char_of n) (scanString r) else None)
                | _ \<Rightarrow> None)
             else
               (case unescape e of
                  None \<Rightarrow> None
                | Some d \<Rightarrow> consChar d (scanString es)))
      else if (of_char c :: nat) < 0x20 then None
      else consChar c (scanString cs))"

text \<open>
  A numeric literal: an optional minus, an integer part without a leading zero, an optional
  fraction and an optional exponent. The result is the literal and the text after it.
\<close>

definition isDigit :: "char \<Rightarrow> bool" where
  "isDigit c \<longleftrightarrow> 0x30 \<le> (of_char c :: nat) \<and> (of_char c :: nat) \<le> 0x39"

definition intPart :: "string \<Rightarrow> (string \<times> string) option" where
  "intPart s =
     (case s of
        [] \<Rightarrow> None
      | c # r \<Rightarrow>
          if c = CHR ''0'' then Some ([c], r)
          else if isDigit c then Some (c # takeWhile isDigit r, dropWhile isDigit r)
          else None)"

definition fracPart :: "string \<Rightarrow> (string \<times> string) option" where
  "fracPart s =
     (case s of
        [] \<Rightarrow> Some ([], s)
      | c # r \<Rightarrow>
          if c = CHR ''.'' then
            (if takeWhile isDigit r = [] then None
             else Some (c # takeWhile isDigit r, dropWhile isDigit r))
          else Some ([], s))"

definition expSign :: "string \<Rightarrow> string \<times> string" where
  "expSign s =
     (case s of
        [] \<Rightarrow> ([], s)
      | c # r \<Rightarrow> if c = CHR ''+'' \<or> c = CHR ''-'' then ([c], r) else ([], s))"

definition expPart :: "string \<Rightarrow> (string \<times> string) option" where
  "expPart s =
     (case s of
        [] \<Rightarrow> Some ([], s)
      | c # r \<Rightarrow>
          if c = CHR ''e'' \<or> c = CHR ''E'' then
            (case expSign r of
               (sg, r') \<Rightarrow>
                 if takeWhile isDigit r' = [] then None
                 else Some (c # sg @ takeWhile isDigit r', dropWhile isDigit r'))
          else Some ([], s))"

definition minusSign :: "string \<Rightarrow> string \<times> string" where
  "minusSign s =
     (case s of
        [] \<Rightarrow> ([], s)
      | c # r \<Rightarrow> if c = CHR ''-'' then ([c], r) else ([], s))"

definition scanNumber :: "string \<Rightarrow> (string \<times> string) option" where
  "scanNumber s =
     (case minusSign s of
        (sg, s1) \<Rightarrow>
          (case intPart s1 of
             None \<Rightarrow> None
           | Some (ip, s2) \<Rightarrow>
               (case fracPart s2 of
                  None \<Rightarrow> None
                | Some (fp, s3) \<Rightarrow>
                    (case expPart s3 of
                       None \<Rightarrow> None
                     | Some (ep, s4) \<Rightarrow> Some (sg @ ip @ fp @ ep, s4)))))"

text \<open>
  JSON white space is TAB, LF, CR and SP. \<open>nextToken\<close> reads the token a text starts with.
\<close>

definition isJsonWs :: "char \<Rightarrow> bool" where
  "isJsonWs c \<longleftrightarrow> c \<in> set [CHR 0x09, CHR 0x0A, CHR 0x0D, CHR 0x20]"

definition nextToken :: "string \<Rightarrow> (token \<times> string) option" where
  "nextToken s =
     (case s of
        [] \<Rightarrow> None
      | c # cs \<Rightarrow>
          if c = CHR ''['' then Some (LBracket, cs)
          else if c = CHR '']'' then Some (RBracket, cs)
          else if c = CHR ''{'' then Some (LBrace, cs)
          else if c = CHR ''}'' then Some (RBrace, cs)
          else if c = CHR '':'' then Some (Colon, cs)
          else if c = CHR '','' then Some (Comma, cs)
          else if c = CHR 0x22 then map_option (\<lambda>(str, rest). (TStr str, rest)) (scanString cs)
          else if take 4 s = ''null'' then Some (TNull, drop 4 s)
          else if take 4 s = ''true'' then Some (TTrue, drop 4 s)
          else if take 5 s = ''false'' then Some (TFalse, drop 5 s)
          else map_option (\<lambda>(lexeme, rest). (TNum lexeme, rest)) (scanNumber s))"

text \<open>
  Every scanner consumes at least one character, which is what makes the tokeniser
  terminate.
\<close>

lemma scanString_shorter: "scanString s = Some (str, rest) \<Longrightarrow> length rest < length s"
proof (induction s arbitrary: str rule: scanString.induct)
  case 1
  then show ?case by simp
next
  case (2 c cs)
  then show ?case
    by (auto simp: consChar_def split: if_splits list.splits option.splits) fastforce+
qed

lemma intPart_shorter: "intPart s = Some (p, r) \<Longrightarrow> length r < length s"
  by (auto simp: intPart_def split: list.splits if_splits intro: le_imp_less_Suc length_dropWhile_le)

lemma fracPart_shorter: "fracPart s = Some (p, r) \<Longrightarrow> length r \<le> length s"
  by (auto simp: fracPart_def split: list.splits if_splits intro: le_SucI length_dropWhile_le)

lemma expSign_shorter: "expSign s = (p, r) \<Longrightarrow> length r \<le> length s"
  by (auto simp: expSign_def split: list.splits if_splits)

lemma expPart_shorter: "expPart s = Some (p, r) \<Longrightarrow> length r \<le> length s"
proof -
  assume a: "expPart s = Some (p, r)"
  show ?thesis
  proof (cases s)
    case Nil
    with a show ?thesis by (simp add: expPart_def)
  next
    case (Cons c t)
    show ?thesis
    proof (cases "c = CHR ''e'' \<or> c = CHR ''E''")
      case False
      with a Cons show ?thesis by (auto simp: expPart_def)
    next
      case True
      obtain sg r' where e: "expSign t = (sg, r')" by (cases "expSign t")
      with a Cons True have "r = dropWhile isDigit r'"
        by (auto simp: expPart_def split: if_splits)
      moreover have "length r' \<le> length t" using e by (rule expSign_shorter)
      moreover have "length (dropWhile isDigit r') \<le> length r'" by (rule length_dropWhile_le)
      ultimately show ?thesis using Cons by simp
    qed
  qed
qed

lemma minusSign_shorter: "minusSign s = (p, r) \<Longrightarrow> length r \<le> length s"
  by (auto simp: minusSign_def split: list.splits if_splits)

lemma scanNumber_shorter: "scanNumber s = Some (l, rest) \<Longrightarrow> length rest < length s"
proof -
  assume a: "scanNumber s = Some (l, rest)"
  obtain sg s1 where m: "minusSign s = (sg, s1)" by (cases "minusSign s")
  from a m obtain ip s2 where i: "intPart s1 = Some (ip, s2)"
    by (auto simp: scanNumber_def split: option.splits)
  from a m i obtain fp s3 where f: "fracPart s2 = Some (fp, s3)"
    by (auto simp: scanNumber_def split: option.splits)
  from a m i f obtain ep where e: "expPart s3 = Some (ep, rest)"
    by (auto simp: scanNumber_def split: option.splits)
  from minusSign_shorter [OF m] intPart_shorter [OF i] fracPart_shorter [OF f] expPart_shorter [OF e]
  show ?thesis by simp
qed

lemma nextToken_shorter: "nextToken s = Some (t, rest) \<Longrightarrow> length rest < length s"
proof (cases s)
  case Nil
  assume "nextToken s = Some (t, rest)"
  with Nil show ?thesis by (simp add: nextToken_def)
next
  case (Cons c cs)
  assume a: "nextToken s = Some (t, rest)"
  have four: "take 4 s = x \<Longrightarrow> length x = 4 \<Longrightarrow> length (drop 4 s) < length s" for x
    using Cons by (cases cs) auto
  have five: "take 5 s = x \<Longrightarrow> length x = 5 \<Longrightarrow> length (drop 5 s) < length s" for x
    using Cons by (cases cs) auto
  from a Cons show ?thesis
    unfolding nextToken_def
    by (auto split: if_splits dest!: scanString_shorter scanNumber_shorter four five)
qed

text \<open>
  The tokens of a text, \<open>None\<close> when some character starts no token.
\<close>

definition consTok :: "token \<Rightarrow> token list option \<Rightarrow> token list option" where
  "consTok t r = map_option ((#) t) r"

function tokenize :: "string \<Rightarrow> token list option" where
  "tokenize [] = Some []"
| "tokenize (c # cs) =
     (if isJsonWs c then tokenize cs
      else
        (case nextToken (c # cs) of
           None \<Rightarrow> None
         | Some (t, rest) \<Rightarrow> consTok t (tokenize rest)))"
  by pat_completeness auto
termination
  by (relation "measure length") (auto dest: nextToken_shorter)

text \<open>
  A property set twice keeps its first position and its last value. The properties stay
  in the order of the text; that an object lists integer-like keys first is not modelled,
  and no lookup depends on the order.
\<close>

fun setProperty :: "(string \<times> jsval) list \<Rightarrow> string \<times> jsval \<Rightarrow> (string \<times> jsval) list" where
  "setProperty [] (k, v) = [(k, v)]"
| "setProperty ((k', v') # ps) (k, v) =
     (if k' = k then (k', v) # ps else (k', v') # setProperty ps (k, v))"

text \<open>
  The grammar of JSON values over tokens. The first argument bounds the depth of the
  recursion; every call but the outermost follows a token of its own, so the number of
  tokens is depth enough.
\<close>

fun parseValue :: "(string \<Rightarrow> real) \<Rightarrow> nat \<Rightarrow> token list \<Rightarrow> (jsval \<times> token list) option"
  and parseElements :: "(string \<Rightarrow> real) \<Rightarrow> nat \<Rightarrow> token list \<Rightarrow> (jsval list \<times> token list) option"
  and parseMembers ::
    "(string \<Rightarrow> real) \<Rightarrow> nat \<Rightarrow> token list \<Rightarrow> ((string \<times> jsval) list \<times> token list) option"
where
  "parseValue numVal 0 ts = None"
| "parseValue numVal (Suc n) ts =
     (case ts of
        TNull # r \<Rightarrow> Some (JNull, r)
      | TTrue # r \<Rightarrow> Some (JBool True, r)
      | TFalse # r \<Rightarrow> Some (JBool False, r)
      | TStr s # r \<Rightarrow> Some (JStr s, r)
      | TNum l # r \<Rightarrow> Some (JNum (numVal l), r)
      | LBracket # RBracket # r \<Rightarrow> Some (JArr [], r)
      | LBracket # r \<Rightarrow> map_option (\<lambda>(vs, r'). (JArr vs, r')) (parseElements numVal n r)
      | LBrace # RBrace # r \<Rightarrow> Some (JObj [], r)
      | LBrace # r \<Rightarrow>
          map_option (\<lambda>(ms, r'). (JObj (foldl setProperty [] ms), r')) (parseMembers numVal n r)
      | _ \<Rightarrow> None)"
| "parseElements numVal 0 ts = None"
| "parseElements numVal (Suc n) ts =
     (case parseValue numVal n ts of
        None \<Rightarrow> None
      | Some (v, r) \<Rightarrow>
          (case r of
             RBracket # r' \<Rightarrow> Some ([v], r')
           | Comma # r' \<Rightarrow> map_option (\<lambda>(vs, r''). (v # vs, r'')) (parseElements numVal n r')
           | _ \<Rightarrow> None))"
| "parseMembers numVal 0 ts = None"
| "parseMembers numVal (Suc n) ts =
     (case ts of
        TStr k # Colon # r \<Rightarrow>
          (case parseValue numVal n r of
             None \<Rightarrow> None
           | Some (v, r') \<Rightarrow>
               (case r' of
                  RBrace # r'' \<Rightarrow> Some ([(k, v)], r'')
                | Comma # r'' \<Rightarrow>
                    map_option (\<lambda>(ms, r'''). ((k, v) # ms, r''')) (parseMembers numVal n r'')
                | _ \<Rightarrow> None))
      | _ \<Rightarrow> None)"

text \<open>
  \<^verbatim>\<open>JSON.parse(text)\<close>: the value when the whole text is one JSON value, a SyntaxError
  otherwise.
\<close>

definition syntaxError :: thrown where
  "syntaxError = ErrorObject ''SyntaxError'' ''Unexpected token in JSON''"

definition jsonParse :: "(string \<Rightarrow> real) \<Rightarrow> string \<Rightarrow> thrown + jsval" where
  "jsonParse numVal text =
     (case tokenize text of
        None \<Rightarrow> Inl syntaxError
      | Some ts \<Rightarrow>
          (case parseValue numVal (length ts) ts of
             Some (v, []) \<Rightarrow> Inr v
           | _ \<Rightarrow> Inl syntaxError))"

text \<open>
  The tokens of the JSON text of a \<open>Book\<close>, and of several separated by commas.
\<close>

definition bookTokens :: "Book \<Rightarrow> token list" where
  "bookTokens b =
     [LBrace,
      TStr ''id'', Colon, TStr (id_book b), Comma,
      TStr ''title'', Colon, TStr (title b), Comma,
      TStr ''author'', Colon, TStr (author b), Comma,
      TStr ''publishedDate'', Colon, TStr (publishedDate b), Comma,
      TStr ''description'', Colon, TStr (description b), Comma,
      TStr ''thumbnail'', Colon, TStr (thumbnail b), Comma,
      TStr ''status'', Colon, TStr (statusString (status b)),
      RBrace]"

fun sepTokens :: "Book list \<Rightarrow> token list" where
  "sepTokens [] = []"
| "sepTokens [b] = bookTokens b"
| "sepTokens (b # c # bs) = bookTokens b @ Comma # sepTokens (c # bs)"

text \<open>
  A host whose JSON functions are the model above; how its storage answers a write stays a
  parameter.
\<close>

definition jsonHost ::
  "(real \<Rightarrow> string) \<Rightarrow> (string \<Rightarrow> real)
     \<Rightarrow> (Storage \<Rightarrow> string \<Rightarrow> string \<Rightarrow> thrown + Storage) \<Rightarrow> Platform" where
  "jsonHost numText numVal store =
     \<lparr>JSON_parse = jsonParse numVal, JSON_stringify = jsonStringify numText, setItem = store\<rparr>"

section \<open>Example values\<close>

text \<open>The book and the search mock of the context's test suite (contexts/README.md).\<close>

definition mockBook :: Book where
  "mockBook =
     \<lparr>id_book = ''book-1'', title = ''Test Book'', author = ''Test Author'',
      publishedDate = ''2024'', description = ''A test book description'',
      thumbnail = ''https://example.com/book.jpg'', status = WantToRead\<rparr>"

definition readingBook :: Book where
  "readingBook = mockBook\<lparr>id_book := ''book-2'', status := CurrentlyReading\<rparr>"

definition testItem :: GoogleBookItem where
  "testItem =
     \<lparr>id_item = ''test-book-1'',
      volumeInfo =
        \<lparr>title_vi = ''Test Book'', authors = Some [''Test Author''],
         publishedDate_vi = Some ''2024'', description_vi = Some ''A test book'',
         imageLinks = Some \<lparr>thumbnail_il = Some ''https://example.com/thumbnail.jpg'',
                             smallThumbnail = None\<rparr>,
         categories = None, publisher = None, industryIdentifiers = None\<rparr>\<rparr>"

definition testBooksApi :: BooksApi where
  "testBooksApi params =
     (if q params = ''error'' then Rejected (ErrorObject ''Error'' ''Search failed'')
      else if q params = ''empty'' then
        Resolved \<lparr>kind = ''books#volumes'', totalItems = 0, items = Some []\<rparr>
      else Resolved \<lparr>kind = ''books#volumes'', totalItems = 1, items = Some [testItem]\<rparr>)"

text \<open>A state after three dispatches: two books added, the first then marked as read.\<close>

definition shelfState :: "Book BookCollectionState" where
  "shelfState =
     bookCollectionReducer
       (bookCollectionReducer (bookCollectionReducer initialState (ADD_BOOK mockBook))
          (ADD_BOOK readingBook))
       (UPDATE_BOOK_STATUS ''book-1'' HaveRead)"

text \<open>A state whose \<open>books\<close> hold two records with the same id.\<close>

definition dupState :: "Book BookCollectionState" where
  "dupState =
     bookCollectionReducer initialState
       (LOAD_FROM_STORAGE [mockBook, mockBook\<lparr>title := ''Second copy''\<rparr>])"

text \<open>
  The item \<^verbatim>\<open>{id: "x", volumeInfo: {title: "T"}}\<close>, and the same item with
  \<^verbatim>\<open>authors: [""]\<close>.
\<close>

definition bareItem :: GoogleBookItem where
  "bareItem =
     \<lparr>id_item = ''x'',
      volumeInfo =
        \<lparr>title_vi = ''T'', authors = None, publishedDate_vi = None, description_vi = None,
         imageLinks = None, categories = None, publisher = None, industryIdentifiers = None\<rparr>\<rparr>"

definition blankAuthorItem :: GoogleBookItem where
  "blankAuthorItem = bareItem\<lparr>volumeInfo := (volumeInfo bareItem)\<lparr>authors := Some [[]]\<rparr>\<rparr>"

text \<open>The text \<^verbatim>\<open>JSON.stringify([mockBook])\<close>.\<close>

definition mockBookText :: string where
  \<open>mockBookText =
     ''[{"id":"book-1","title":"Test Book","author":"Test Author","publishedDate":"2024",'' @
     ''"description":"A test book description","thumbnail":"https://example.com/book.jpg",'' @
     ''"status":"want-to-read"}]''\<close>

text \<open>
  A host for the examples. Its \<^verbatim>\<open>JSON.parse\<close> and \<^verbatim>\<open>JSON.stringify\<close> are tables
  of the real functions on the values the examples use: the texts \<^verbatim>\<open>[]\<close>,
  \<^verbatim>\<open>null\<close>, \<^verbatim>\<open>{}\<close>, \<^verbatim>\<open>[null]\<close>, \<open>mockBookText\<close> and
  \<^verbatim>\<open>invalid json\<close>, and the arrays
  \<^verbatim>\<open>[]\<close> and \<^verbatim>\<open>[mockBook]\<close>. The last line of each table answers everything
  else; no example reads it there. Its storage accepts every write.
\<close>

definition examplePlatform :: Platform where
  "examplePlatform =
     \<lparr>JSON_parse = (\<lambda>text.
        if text = ''[]'' then Inr (JArr [])
        else if text = ''null'' then Inr JNull
        else if text = ''{}'' then Inr (JObj [])
        else if text = ''[null]'' then Inr (JArr [JNull])
        else if text = mockBookText then Inr (JArr [bookToJS mockBook])
        else Inl (ErrorObject ''SyntaxError'' ''Unexpected token i in JSON at position 0'')),
      JSON_stringify = (\<lambda>v.
        if v = JArr [] then ''[]''
        else if v = JArr [bookToJS mockBook] then mockBookText
        else ''null''),
      setItem = (\<lambda>storage key text. Inr (storage(key \<mapsto> text)))\<rparr>"


text \<open>
  Two hosts with the JSON model, for collections that hold no number (numbers are written
  and read as zero): one whose storage takes every write, one whose storage is full.
\<close>

definition acceptingHost :: Platform where
  "acceptingHost =
     jsonHost (\<lambda>r. ''0'') (\<lambda>lexeme. 0) (\<lambda>storage key text. Inr (storage(key \<mapsto> text)))"

definition fullHost :: Platform where
  "fullHost =
     jsonHost (\<lambda>r. ''0'') (\<lambda>lexeme. 0)
       (\<lambda>storage key text.
          Inl (DOMExceptionObject ''QuotaExceededError'' ''The quota has been exceeded.''))"

section \<open>The derived views follow \<open>books\<close>\<close>

lemma derivedOk_recompute:
  "derivedOk (spreadDerived (computeDerivedArrays bs) (s\<lparr>books := bs\<rparr>))"
  by (simp add: derivedOk_def computeDerivedArrays_def spreadDerived_def)

lemma derivedOk_initialState: "derivedOk initialState"
  by (simp add: derivedOk_def computeDerivedArrays_def initialState_def)

lemma derivedOk_reducer: "derivedOk s \<Longrightarrow> derivedOk (bookCollectionReducer s a)"
proof (cases a)
  case (ADD_BOOK b)
  then show ?thesis by (simp add: Let_def derivedOk_recompute)
next
  case (REMOVE_BOOK i)
  then show ?thesis by (simp add: Let_def derivedOk_recompute)
next
  case (UPDATE_BOOK_STATUS i st)
  then show ?thesis by (simp add: Let_def derivedOk_recompute)
next
  case (LOAD_FROM_STORAGE bs)
  then show ?thesis by (simp add: derivedOk_recompute)
qed (simp_all add: derivedOk_def)

lemma reachable_derivedOk: "reachable s \<Longrightarrow> derivedOk s"
  by (induction rule: reachable.induct) (simp_all add: derivedOk_initialState derivedOk_reducer)

lemma derivedOk_spread_same:
  assumes "derivedOk s"
  shows "spreadDerived (computeDerivedArrays (books s)) s = s"
proof -
  from assms have "computeDerivedArrays (books s) = (currentlyReading s, wantToRead s, haveRead s)"
    by (simp add: derivedOk_def)
  then show ?thesis by (simp add: spreadDerived_def)
qed

lemma mset_filter_status:
  "mset (filter (\<lambda>b. status b = WantToRead) bs)
     + mset (filter (\<lambda>b. status b = CurrentlyReading) bs)
     + mset (filter (\<lambda>b. status b = HaveRead) bs) = mset bs"
proof (induction bs)
  case Nil
  show ?case by simp
next
  case (Cons b bs)
  then show ?case by (cases "status b") simp_all
qed

lemma reachable_shelfState: "reachable shelfState"
  unfolding shelfState_def by (intro reachable.step reachable.init)

lemma reachable_dupState: "reachable dupState"
  unfolding dupState_def by (intro reachable.step reachable.init)

text \<open>
  C1. In every state reachable from \<open>initialState\<close> by reducer actions, each derived
  field is the filter of \<open>books\<close> by its status. So a record is in a derived view
  exactly when it is in \<open>books\<close> with that view's status (no view holds a record from
  outside \<open>books\<close>, and a record of \<open>books\<close> is in the one view of its status), and
  the three views together hold every record as often as \<open>books\<close> does.
\<close>

theorem derived_views_partition_books:
  assumes "reachable s"
  shows "wantToRead s = filter (\<lambda>b. status b = WantToRead) (books s)
       \<and> currentlyReading s = filter (\<lambda>b. status b = CurrentlyReading) (books s)
       \<and> haveRead s = filter (\<lambda>b. status b = HaveRead) (books s)
       \<and> (\<forall>b. b \<in> set (wantToRead s) \<longleftrightarrow> b \<in> set (books s) \<and> status b = WantToRead)
       \<and> (\<forall>b. b \<in> set (currentlyReading s) \<longleftrightarrow> b \<in> set (books s) \<and> status b = CurrentlyReading)
       \<and> (\<forall>b. b \<in> set (haveRead s) \<longleftrightarrow> b \<in> set (books s) \<and> status b = HaveRead)
       \<and> mset (wantToRead s) + mset (currentlyReading s) + mset (haveRead s) = mset (books s)"
proof -
  from assms have ok: "derivedOk s" by (rule reachable_derivedOk)
  then have w: "wantToRead s = filter (\<lambda>b. status b = WantToRead) (books s)"
    and c: "currentlyReading s = filter (\<lambda>b. status b = CurrentlyReading) (books s)"
    and h: "haveRead s = filter (\<lambda>b. status b = HaveRead) (books s)"
    by (simp_all add: derivedOk_def computeDerivedArrays_def)
  have m: "mset (wantToRead s) + mset (currentlyReading s) + mset (haveRead s) = mset (books s)"
    unfolding w c h by (rule mset_filter_status)
  show ?thesis using w c h m by simp
qed

text \<open>
  The theorem at \<open>shelfState\<close>, which is the spec's scenario with a second book: after
  \<^verbatim>\<open>UpdateStatus("book-1", "have-read")\<close> the first book is in \<open>haveRead\<close> only.
\<close>

theorem derived_views_partition_books_witness:
  "reachable shelfState
   \<and> books shelfState = [mockBook\<lparr>status := HaveRead\<rparr>, readingBook]
   \<and> wantToRead shelfState = []
   \<and> currentlyReading shelfState = [readingBook]
   \<and> haveRead shelfState = [mockBook\<lparr>status := HaveRead\<rparr>]
   \<and> mset (wantToRead shelfState) + mset (currentlyReading shelfState)
       + mset (haveRead shelfState) = mset (books shelfState)"
proof -
  have bs: "books shelfState = [mockBook\<lparr>status := HaveRead\<rparr>, readingBook]"
    by (simp add: shelfState_def initialState_def Let_def spreadDerived_def
        computeDerivedArrays_def mockBook_def readingBook_def)
  have st: "status readingBook = CurrentlyReading" "status (mockBook\<lparr>status := HaveRead\<rparr>) = HaveRead"
    by (simp_all add: readingBook_def)
  show ?thesis
    using derived_views_partition_books [OF reachable_shelfState] reachable_shelfState bs st
    by simp
qed


section \<open>The collection actions\<close>

lemma unique_id_occurs_once:
  "distinct (map id_book bs) \<Longrightarrow> i \<in> id_book ` set bs \<Longrightarrow>
   length (filter (\<lambda>x. id_book x = i) bs) = 1"
proof (induction bs)
  case Nil
  then show ?case by simp
next
  case (Cons b bs)
  show ?case
  proof (cases "id_book b = i")
    case True
    with Cons.prems(1) have "i \<notin> id_book ` set bs" by simp
    then have "\<forall>x \<in> set bs. id_book x \<noteq> i" by blast
    then have "filter (\<lambda>x. id_book x = i) bs = []" by (simp add: filter_empty_conv)
    with True show ?thesis by simp
  next
    case False
    with Cons show ?thesis by auto
  qed
qed


text \<open>
  C3, as amended. \<^verbatim>\<open>ADD_BOOK\<close> drops every record of \<open>books\<close> with the new record's
  id and appends the new record. The result holds exactly one record with that id, the
  new one with its own field values, and its length is the old length minus the number of
  records that had the id, plus one. So when the ids of \<open>books\<close> are unique and one of
  them is the new record's, the length is the same as before.
\<close>

theorem add_book_replaces_same_id:
  "books (bookCollectionReducer s (ADD_BOOK b)) =
      filter (\<lambda>x. id_book x \<noteq> id_book b) (books s) @ [b]
   \<and> filter (\<lambda>x. id_book x = id_book b) (books (bookCollectionReducer s (ADD_BOOK b))) = [b]
   \<and> length (books (bookCollectionReducer s (ADD_BOOK b)))
        + length (filter (\<lambda>x. id_book x = id_book b) (books s)) = length (books s) + 1
   \<and> (distinct (map id_book (books s)) \<and> id_book b \<in> id_book ` set (books s)
        \<longrightarrow> length (books (bookCollectionReducer s (ADD_BOOK b))) = length (books s))"
proof -
  let ?keep = "filter (\<lambda>x. id_book x \<noteq> id_book b) (books s)"
  let ?same = "filter (\<lambda>x. id_book x = id_book b) (books s)"
  have bs: "books (bookCollectionReducer s (ADD_BOOK b)) = ?keep @ [b]"
    by (simp add: Let_def spreadDerived_def computeDerivedArrays_def)
  have one: "filter (\<lambda>x. id_book x = id_book b) (?keep @ [b]) = [b]"
    by simp
  have len: "length ?keep + length ?same = length (books s)"
    using sum_length_filter_compl [of "\<lambda>x. id_book x \<noteq> id_book b" "books s"] by simp
  have uniq: "length (?keep @ [b]) = length (books s)"
    if "distinct (map id_book (books s)) \<and> id_book b \<in> id_book ` set (books s)"
  proof -
    from that have "length ?same = 1" by (simp add: unique_id_occurs_once)
    with len show ?thesis by simp
  qed
  show ?thesis using bs one len uniq by simp
qed

text \<open>
  The theorem at \<open>shelfState\<close>, whose ids are unique, and a second edition of the book
  with the id \<^verbatim>\<open>book-1\<close>: the old record goes, the new one is last, two records remain.
\<close>

theorem add_book_replaces_same_id_witness:
  "distinct (map id_book (books shelfState))
   \<and> ''book-1'' \<in> id_book ` set (books shelfState)
   \<and> books (bookCollectionReducer shelfState (ADD_BOOK (mockBook\<lparr>title := ''Second edition''\<rparr>)))
       = [readingBook, mockBook\<lparr>title := ''Second edition''\<rparr>]
   \<and> length (books (bookCollectionReducer shelfState (ADD_BOOK (mockBook\<lparr>title := ''Second edition''\<rparr>))))
       = length (books shelfState)"
proof -
  have bs: "books shelfState = [mockBook\<lparr>status := HaveRead\<rparr>, readingBook]"
    by (simp add: shelfState_def initialState_def Let_def spreadDerived_def
        computeDerivedArrays_def mockBook_def readingBook_def)
  have ids: "id_book mockBook = ''book-1''" "id_book readingBook = ''book-2''"
    by (simp_all add: mockBook_def readingBook_def)
  have pre: "distinct (map id_book (books shelfState))
      \<and> id_book (mockBook\<lparr>title := ''Second edition''\<rparr>) \<in> id_book ` set (books shelfState)"
    by (simp add: bs ids)
  show ?thesis
    using add_book_replaces_same_id [of shelfState "mockBook\<lparr>title := ''Second edition''\<rparr>"] pre
    by (simp add: bs ids)
qed

text \<open>
  C3 as stated claims the same length for every state that already holds a record with
  the id. \<open>dupState\<close>, reached by \<^verbatim>\<open>LOAD_FROM_STORAGE\<close>, holds two records with the
  id of \<open>mockBook\<close>; adding \<open>mockBook\<close> removes both, and the length goes from 2 to 1.
\<close>

theorem add_book_same_length_counterexample:
  "reachable dupState
   \<and> mockBook \<in> set (books dupState)
   \<and> length (books dupState) = 2
   \<and> length (books (bookCollectionReducer dupState (ADD_BOOK mockBook))) = 1"
proof -
  have "books dupState = [mockBook, mockBook\<lparr>title := ''Second copy''\<rparr>]"
    by (simp add: dupState_def initialState_def spreadDerived_def computeDerivedArrays_def)
  then show ?thesis
    using reachable_dupState
    by (simp add: Let_def spreadDerived_def computeDerivedArrays_def mockBook_def)
qed

text \<open>
  C8. In a state the store can hold, \<^verbatim>\<open>UPDATE_BOOK_STATUS\<close> with an id that no record
  of \<open>books\<close> has returns the state it was given: every field keeps its value.
\<close>

theorem update_status_unknown_id_noop:
  assumes "reachable s" and "\<forall>b \<in> set (books s). id_book b \<noteq> i"
  shows "bookCollectionReducer s (UPDATE_BOOK_STATUS i st) = s"
proof -
  have same: "map (\<lambda>book. if id_book book = i then book\<lparr>status := st\<rparr> else book) (books s) = books s"
    using assms(2) by (intro map_idI) simp
  have "derivedOk s" using assms(1) by (rule reachable_derivedOk)
  then show ?thesis
    by (simp add: same derivedOk_spread_same)
qed

text \<open>
  The theorem at \<open>shelfState\<close> and the id \<^verbatim>\<open>book-9\<close>, which no record there has.
\<close>

theorem update_status_unknown_id_noop_witness:
  "reachable shelfState
   \<and> ''book-9'' \<notin> id_book ` set (books shelfState)
   \<and> bookCollectionReducer shelfState (UPDATE_BOOK_STATUS ''book-9'' WantToRead) = shelfState"
proof -
  have bs: "books shelfState = [mockBook\<lparr>status := HaveRead\<rparr>, readingBook]"
    by (simp add: shelfState_def initialState_def Let_def spreadDerived_def
        computeDerivedArrays_def mockBook_def readingBook_def)
  have no: "\<forall>b \<in> set (books shelfState). id_book b \<noteq> ''book-9''"
    by (simp add: bs mockBook_def readingBook_def)
  show ?thesis
    using update_status_unknown_id_noop [OF reachable_shelfState no, of WantToRead]
      reachable_shelfState no
    by auto
qed

text \<open>
  C10. \<^verbatim>\<open>ADD_BOOK\<close>, \<^verbatim>\<open>REMOVE_BOOK\<close> and \<^verbatim>\<open>UPDATE_BOOK_STATUS\<close> leave
  \<open>searchResults\<close>, \<open>isLoading\<close> and \<open>error\<close> as they were: the new state is the old
  one with \<open>books\<close> and the three derived views replaced, and nothing else.
\<close>

theorem collection_actions_keep_transient_fields:
  "(let s' = bookCollectionReducer s (ADD_BOOK b) in
      searchResults s' = searchResults s \<and> isLoading s' = isLoading s \<and> error s' = error s
      \<and> s' = s\<lparr>books := books s', currentlyReading := currentlyReading s',
                 wantToRead := wantToRead s', haveRead := haveRead s'\<rparr>)
   \<and> (let s' = bookCollectionReducer s (REMOVE_BOOK i) in
      searchResults s' = searchResults s \<and> isLoading s' = isLoading s \<and> error s' = error s
      \<and> s' = s\<lparr>books := books s', currentlyReading := currentlyReading s',
                 wantToRead := wantToRead s', haveRead := haveRead s'\<rparr>)
   \<and> (let s' = bookCollectionReducer s (UPDATE_BOOK_STATUS i st) in
      searchResults s' = searchResults s \<and> isLoading s' = isLoading s \<and> error s' = error s
      \<and> s' = s\<lparr>books := books s', currentlyReading := currentlyReading s',
                 wantToRead := wantToRead s', haveRead := haveRead s'\<rparr>)"
  by (simp add: Let_def spreadDerived_def computeDerivedArrays_def)

section \<open>The mapping adapter maps missing fields to defaults\<close>

lemma join_comma_empty_iff: "join '', '' xs = [] \<longleftrightarrow> xs = [] \<or> xs = [[]]"
  by (induction "'', ''" xs rule: join.induct) auto

lemma js_or_None: "js_or None b = b"
  by (simp add: js_or_def)

lemma js_or_Some: "js_or (Some s) b = (if s = [] then b else s)"
  by (simp add: js_or_def)

text \<open>
  C9, as amended. An item without authors, publishedDate, description and thumbnail maps to
  the record with its id and title copied, the four default texts and the given status
  (\<^verbatim>\<open>want-to-read\<close> when omitted). An absent or empty authors list gives
  \<^verbatim>\<open>Unknown Author\<close>. A non-empty list gives its elements joined with \<^verbatim>\<open>", "\<close>,
  except the list \<^verbatim>\<open>[""]\<close>: its join is the empty string, which \<^verbatim>\<open>||\<close> replaces by
  \<^verbatim>\<open>Unknown Author\<close>.
\<close>

theorem mapping_defaults:
  "(authors (volumeInfo item) = None \<and> publishedDate_vi (volumeInfo item) = None
      \<and> description_vi (volumeInfo item) = None
      \<and> Option.bind (imageLinks (volumeInfo item)) thumbnail_il = None
     \<longrightarrow> mapGoogleBookToBook item st =
          \<lparr>id_book = id_item item, title = title_vi (volumeInfo item),
           author = ''Unknown Author'', publishedDate = ''Unknown Date'',
           description = ''No description available'',
           thumbnail = ''https://via.placeholder.com/128x192.png?text=No+Cover'',
           status = (case st of None \<Rightarrow> WantToRead | Some x \<Rightarrow> x)\<rparr>)
   \<and> (authors (volumeInfo item) = None \<or> authors (volumeInfo item) = Some []
     \<longrightarrow> author (mapGoogleBookToBook item st) = ''Unknown Author'')
   \<and> (authors (volumeInfo item) = Some xs \<and> xs \<noteq> [] \<and> xs \<noteq> [[]]
     \<longrightarrow> author (mapGoogleBookToBook item st) = join '', '' xs)
   \<and> (authors (volumeInfo item) = Some [[]]
     \<longrightarrow> author (mapGoogleBookToBook item st) = ''Unknown Author'')"
proof (intro conjI impI)
  assume "authors (volumeInfo item) = None \<and> publishedDate_vi (volumeInfo item) = None
      \<and> description_vi (volumeInfo item) = None
      \<and> Option.bind (imageLinks (volumeInfo item)) thumbnail_il = None"
  then show "mapGoogleBookToBook item st =
          \<lparr>id_book = id_item item, title = title_vi (volumeInfo item),
           author = ''Unknown Author'', publishedDate = ''Unknown Date'',
           description = ''No description available'',
           thumbnail = ''https://via.placeholder.com/128x192.png?text=No+Cover'',
           status = (case st of None \<Rightarrow> WantToRead | Some x \<Rightarrow> x)\<rparr>"
    by (simp add: mapGoogleBookToBook_def js_or_None)
next
  assume "authors (volumeInfo item) = None \<or> authors (volumeInfo item) = Some []"
  then show "author (mapGoogleBookToBook item st) = ''Unknown Author''"
    by (auto simp: mapGoogleBookToBook_def js_or_None js_or_Some)
next
  assume a: "authors (volumeInfo item) = Some xs \<and> xs \<noteq> [] \<and> xs \<noteq> [[]]"
  then have "join '', '' xs \<noteq> []" by (simp add: join_comma_empty_iff)
  with a show "author (mapGoogleBookToBook item st) = join '', '' xs"
    by (simp add: mapGoogleBookToBook_def js_or_Some)
next
  assume "authors (volumeInfo item) = Some [[]]"
  then show "author (mapGoogleBookToBook item st) = ''Unknown Author''"
    by (simp add: mapGoogleBookToBook_def js_or_Some)
qed

text \<open>
  The theorem at the spec's scenario item, at the test suite's item with one author, and
  at the item whose authors are \<^verbatim>\<open>[""]\<close>.
\<close>

theorem mapping_defaults_witness:
  "mapGoogleBookToBook bareItem None =
     \<lparr>id_book = ''x'', title = ''T'', author = ''Unknown Author'',
      publishedDate = ''Unknown Date'', description = ''No description available'',
      thumbnail = ''https://via.placeholder.com/128x192.png?text=No+Cover'',
      status = WantToRead\<rparr>
   \<and> authors (volumeInfo testItem) = Some [''Test Author'']
   \<and> author (mapGoogleBookToBook testItem (Some HaveRead)) = ''Test Author''
   \<and> authors (volumeInfo blankAuthorItem) = Some [[]]
   \<and> author (mapGoogleBookToBook blankAuthorItem None) = ''Unknown Author''"
proof -
  have bare: "authors (volumeInfo bareItem) = None \<and> publishedDate_vi (volumeInfo bareItem) = None
      \<and> description_vi (volumeInfo bareItem) = None
      \<and> Option.bind (imageLinks (volumeInfo bareItem)) thumbnail_il = None"
    by (simp add: bareItem_def)
  have test: "authors (volumeInfo testItem) = Some [''Test Author''] \<and> [''Test Author''] \<noteq> []
      \<and> [''Test Author''] \<noteq> [[]]"
    by (simp add: testItem_def)
  have blank: "authors (volumeInfo blankAuthorItem) = Some [[]]"
    by (simp add: blankAuthorItem_def)
  have ids: "id_item bareItem = ''x''" "title_vi (volumeInfo bareItem) = ''T''"
    by (simp_all add: bareItem_def)
  show ?thesis
    using mapping_defaults [where item = bareItem and st = None and xs = "[]"]
      mapping_defaults [where item = testItem and st = "Some HaveRead" and xs = "[''Test Author'']"]
      mapping_defaults [where item = blankAuthorItem and st = None and xs = "[]"]
      bare test blank ids
    by simp
qed

text \<open>
  C9 as stated maps every non-empty authors list to its join. The list \<^verbatim>\<open>[""]\<close> is not
  empty and its join is the empty string, yet the author is \<^verbatim>\<open>Unknown Author\<close>.
\<close>

theorem nonempty_authors_join_counterexample:
  "authors (volumeInfo blankAuthorItem) = Some [[]]
   \<and> [[]] \<noteq> ([] :: string list)
   \<and> join '', '' [[]] = []
   \<and> author (mapGoogleBookToBook blankAuthorItem None) = ''Unknown Author''
   \<and> author (mapGoogleBookToBook blankAuthorItem None) \<noteq> join '', '' [[]]"
  by (simp add: blankAuthorItem_def bareItem_def mapGoogleBookToBook_def js_or_def)

section \<open>The search cycle\<close>

lemma trim_empty_iff: "trim query = [] \<longleftrightarrow> (\<forall>c \<in> set query. isWhiteSpace c)"
proof
  assume "trim query = []"
  then have all: "\<forall>c \<in> set (dropWhile isWhiteSpace query). isWhiteSpace c"
    by (simp add: trim_def dropWhile_eq_Nil_conv)
  have "dropWhile isWhiteSpace query = []"
  proof (rule ccontr)
    assume ne: "dropWhile isWhiteSpace query \<noteq> []"
    then have "\<not> isWhiteSpace (hd (dropWhile isWhiteSpace query))" by (rule hd_dropWhile)
    moreover have "hd (dropWhile isWhiteSpace query) \<in> set (dropWhile isWhiteSpace query)"
      using ne by (rule hd_in_set)
    ultimately show False using all by blast
  qed
  then show "\<forall>c \<in> set query. isWhiteSpace c" by (simp add: dropWhile_eq_Nil_conv)
next
  assume "\<forall>c \<in> set query. isWhiteSpace c"
  then have d: "dropWhile isWhiteSpace query = []" by (simp add: dropWhile_eq_Nil_conv)
  show "trim query = []" unfolding trim_def d by simp
qed

lemma searchBooks_blank:
  "trim query = [] \<Longrightarrow> searchBooks booksApi query = [Dispatch CLEAR_SEARCH]"
  by (simp add: searchBooks_def)

lemma searchBooks_rejected:
  assumes "trim query \<noteq> []"
    and "booksApi \<lparr>q = query, startIndex = None, maxResults = Some 10,
                    printType = None, orderBy = None\<rparr> = Rejected e"
  shows "searchBooks booksApi query =
     [Dispatch (SET_LOADING True),
      CallSearchBooks \<lparr>q = query, startIndex = None, maxResults = Some 10,
                       printType = None, orderBy = None\<rparr>,
      ConsoleError ''Search error:'' e,
      Dispatch (SET_ERROR (Some (searchErrorMessage e))),
      Dispatch (SET_SEARCH_RESULTS [])]"
  using assms by (simp add: searchBooks_def Let_def)

lemma searchBooks_no_items:
  assumes "trim query \<noteq> []"
    and "booksApi \<lparr>q = query, startIndex = None, maxResults = Some 10,
                    printType = None, orderBy = None\<rparr> = Resolved response"
    and "items response = None \<or> items response = Some []"
  shows "searchBooks booksApi query =
     [Dispatch (SET_LOADING True),
      CallSearchBooks \<lparr>q = query, startIndex = None, maxResults = Some 10,
                       printType = None, orderBy = None\<rparr>,
      Dispatch (SET_SEARCH_RESULTS []),
      Dispatch (SET_ERROR (Some ''No books found matching your search.''))]"
  using assms by (auto simp: searchBooks_def Let_def)


text \<open>
  C2 claims that after a failed search the state holds the failure message in \<open>error\<close>.
  The code does not: the \<^verbatim>\<open>catch\<close> clause dispatches \<^verbatim>\<open>SET_ERROR\<close> and then
  \<^verbatim>\<open>SET_SEARCH_RESULTS\<close>, whose reducer case sets \<open>error\<close> back to \<^verbatim>\<open>null\<close>. For
  every state, every query with a character that is no white space and every rejection,
  the state after the search has no error, no search results and \<open>isLoading = False\<close>.
\<close>

theorem search_failure_final_state:
  assumes "\<not> (\<forall>c \<in> set query. isWhiteSpace c)"
    and "booksApi \<lparr>q = query, startIndex = None, maxResults = Some 10,
                    printType = None, orderBy = None\<rparr> = Rejected e"
  shows "stateAfterSearch booksApi query s =
           s\<lparr>searchResults := [], isLoading := False, error := None\<rparr>"
proof -
  from assms(1) have "trim query \<noteq> []" by (simp add: trim_empty_iff)
  then show ?thesis
    using assms(2) by (simp add: stateAfterSearch_def searchBooks_rejected)
qed

text \<open>
  The theorem at the test suite's mock, which rejects the query \<^verbatim>\<open>error\<close> with
  \<^verbatim>\<open>new Error('Search failed')\<close>.
\<close>

theorem search_failure_final_state_witness:
  "testBooksApi \<lparr>q = ''error'', startIndex = None, maxResults = Some 10,
                  printType = None, orderBy = None\<rparr> = Rejected (ErrorObject ''Error'' ''Search failed'')
   \<and> error (stateAfterSearch testBooksApi ''error'' initialState) = None
   \<and> searchResults (stateAfterSearch testBooksApi ''error'' initialState) = []"
proof -
  have nb: "\<not> (\<forall>c \<in> set ''error''. isWhiteSpace c)" by (simp add: isWhiteSpace_def)
  have rej: "testBooksApi \<lparr>q = ''error'', startIndex = None, maxResults = Some 10,
      printType = None, orderBy = None\<rparr> = Rejected (ErrorObject ''Error'' ''Search failed'')"
    by (simp add: testBooksApi_def)
  show ?thesis
    using search_failure_final_state
        [where booksApi = testBooksApi and query = "''error''" and s = initialState
           and e = "ErrorObject ''Error'' ''Search failed''"] nb rej
    by simp
qed


text \<open>
  C6. For a query of white space only (the empty query included), \<^verbatim>\<open>searchBooks\<close>
  dispatches \<^verbatim>\<open>CLEAR_SEARCH\<close> and does nothing else, so the collaborator is not called;
  the state afterwards has no search results and no error, and \<open>isLoading\<close> and every
  other field are as before.
\<close>

theorem blank_query_clears_search:
  assumes "\<forall>c \<in> set query. isWhiteSpace c"
  shows "searchBooks booksApi query = [Dispatch CLEAR_SEARCH]
       \<and> stateAfterSearch booksApi query s = s\<lparr>searchResults := [], error := None\<rparr>
       \<and> searchResults (stateAfterSearch booksApi query s) = []
       \<and> error (stateAfterSearch booksApi query s) = None
       \<and> isLoading (stateAfterSearch booksApi query s) = isLoading s"
proof -
  from assms have "trim query = []" by (simp add: trim_empty_iff)
  then show ?thesis by (simp add: stateAfterSearch_def searchBooks_blank)
qed

text \<open>
  The theorem at the queries of three spaces and of no character, from a state that is
  loading and shows an error.
\<close>

theorem blank_query_clears_search_witness:
  "searchBooks testBooksApi ''   '' = [Dispatch CLEAR_SEARCH]
   \<and> searchBooks testBooksApi [] = [Dispatch CLEAR_SEARCH]
   \<and> stateAfterSearch testBooksApi ''   '' (shelfState\<lparr>isLoading := True, error := Some ''old''\<rparr>)
       = shelfState\<lparr>isLoading := True\<rparr>"
proof -
  have b1: "\<forall>c \<in> set ''   ''. isWhiteSpace c" by (simp add: isWhiteSpace_def)
  have b0: "\<forall>c \<in> set []. isWhiteSpace c" by simp
  have sr: "searchResults shelfState = []" "error shelfState = None"
    by (simp_all add: shelfState_def initialState_def Let_def spreadDerived_def computeDerivedArrays_def)
  have eq: "shelfState\<lparr>isLoading := True, error := Some ''old'', searchResults := [], error := None\<rparr>
            = shelfState\<lparr>isLoading := True\<rparr>"
    using sr by simp
  show ?thesis
    using blank_query_clears_search [OF b1, of testBooksApi "shelfState\<lparr>isLoading := True, error := Some ''old''\<rparr>"]
      blank_query_clears_search [OF b0, of testBooksApi initialState] eq
    by simp
qed


text \<open>
  C7. When the query has a character that is no white space and the collaborator resolves
  with no items (an empty or absent \<^verbatim>\<open>items\<close>), the state after the search has no
  search results, the error \<^verbatim>\<open>No books found matching your search.\<close> and
  \<open>isLoading = False\<close>.
\<close>

theorem empty_result_sets_error:
  assumes "\<not> (\<forall>c \<in> set query. isWhiteSpace c)"
    and "booksApi \<lparr>q = query, startIndex = None, maxResults = Some 10,
                    printType = None, orderBy = None\<rparr> = Resolved response"
    and "items response = None \<or> items response = Some []"
  shows "searchResults (stateAfterSearch booksApi query s) = []
       \<and> error (stateAfterSearch booksApi query s) = Some ''No books found matching your search.''
       \<and> isLoading (stateAfterSearch booksApi query s) = False"
proof -
  from assms(1) have "trim query \<noteq> []" by (simp add: trim_empty_iff)
  then show ?thesis
    using assms(2,3) by (simp add: stateAfterSearch_def searchBooks_no_items)
qed

text \<open>
  The theorem at the test suite's mock, which resolves the query \<^verbatim>\<open>empty\<close> with no
  items.
\<close>

theorem empty_result_sets_error_witness:
  "testBooksApi \<lparr>q = ''empty'', startIndex = None, maxResults = Some 10,
                  printType = None, orderBy = None\<rparr>
     = Resolved \<lparr>kind = ''books#volumes'', totalItems = 0, items = Some []\<rparr>
   \<and> searchResults (stateAfterSearch testBooksApi ''empty'' shelfState) = []
   \<and> error (stateAfterSearch testBooksApi ''empty'' shelfState) = Some ''No books found matching your search.''
   \<and> isLoading (stateAfterSearch testBooksApi ''empty'' shelfState) = False"
proof -
  have nb: "\<not> (\<forall>c \<in> set ''empty''. isWhiteSpace c)" by (simp add: isWhiteSpace_def)
  have res: "testBooksApi \<lparr>q = ''empty'', startIndex = None, maxResults = Some 10,
      printType = None, orderBy = None\<rparr>
     = Resolved \<lparr>kind = ''books#volumes'', totalItems = 0, items = Some []\<rparr>"
    by (simp add: testBooksApi_def)
  have it: "items \<lparr>kind = ''books#volumes'', totalItems = 0, items = Some []\<rparr> = None
          \<or> items \<lparr>kind = ''books#volumes'', totalItems = 0, items = Some []\<rparr> = Some []"
    by simp
  show ?thesis
    using empty_result_sets_error
        [where booksApi = testBooksApi and query = "''empty''" and s = shelfState
           and response = "\<lparr>kind = ''books#volumes'', totalItems = 0, items = Some []\<rparr>"]
      nb res it
    by simp
qed

section \<open>Saving and loading\<close>

lemma statusString_inj: "statusString a = statusString b \<longleftrightarrow> a = b"
  by (cases a; cases b) simp_all

lemma getStatus_bookToJS: "getStatus (bookToJS b) = Inr (Some (JStr (statusString (status b))))"
  by (simp add: bookToJS_def)

lemma filterByStatus_books:
  "filterByStatus (statusString st) (map bookToJS bs)
     = Inr (map bookToJS (filter (\<lambda>b. status b = st) bs))"
  by (induction bs) (simp_all add: getStatus_bookToJS statusString_inj)

lemma computeDerivedArraysJS_books:
  "computeDerivedArraysJS (map bookToJS bs) =
     Inr (map bookToJS (filter (\<lambda>b. status b = CurrentlyReading) bs),
          map bookToJS (filter (\<lambda>b. status b = WantToRead) bs),
          map bookToJS (filter (\<lambda>b. status b = HaveRead) bs))"
  using filterByStatus_books [of CurrentlyReading bs] filterByStatus_books [of WantToRead bs]
    filterByStatus_books [of HaveRead bs]
  by (simp add: computeDerivedArraysJS_def)

lemma loadInitialState_absent:
  "storage STORAGE_KEY = None \<Longrightarrow> loadInitialState P storage = (initialState, [])"
  by (simp add: loadInitialState_def loadAttempt_def)

lemma loadInitialState_empty_text:
  "storage STORAGE_KEY = Some [] \<Longrightarrow> loadInitialState P storage = (initialState, [])"
  by (simp add: loadInitialState_def loadAttempt_def)

lemma loadInitialState_parse_fails:
  "storage STORAGE_KEY = Some blob \<Longrightarrow> blob \<noteq> [] \<Longrightarrow> JSON_parse P blob = Inl e \<Longrightarrow>
   loadInitialState P storage =
     (initialState, [ConsoleError ''Failed to load books from localStorage:'' e])"
  by (simp add: loadInitialState_def loadAttempt_def)

lemma loadInitialState_not_array:
  "storage STORAGE_KEY = Some blob \<Longrightarrow> JSON_parse P blob = Inr v \<Longrightarrow> \<forall>bs. v \<noteq> JArr bs \<Longrightarrow>
   loadInitialState P storage = (initialState, [])"
  by (cases v) (simp_all add: loadInitialState_def loadAttempt_def)

lemma loadInitialState_array:
  "storage STORAGE_KEY = Some blob \<Longrightarrow> blob \<noteq> [] \<Longrightarrow> JSON_parse P blob = Inr (JArr bs) \<Longrightarrow>
   loadInitialState P storage =
     (case computeDerivedArraysJS bs of
        Inl e \<Rightarrow> (initialState, [ConsoleError ''Failed to load books from localStorage:'' e])
      | Inr d \<Rightarrow> (spreadDerived d (initialState\<lparr>books := bs\<rparr>), []))"
  by (simp add: loadInitialState_def loadAttempt_def split: sum.splits)


subsection \<open>The depth bound of the parser\<close>

text \<open>A larger bound never changes an answer the parser gave.\<close>

lemma parse_more_fuel_step:
  "(\<forall>ts r. parseValue numVal n ts = Some r \<longrightarrow> parseValue numVal (Suc n) ts = Some r)
   \<and> (\<forall>ts r. parseElements numVal n ts = Some r \<longrightarrow> parseElements numVal (Suc n) ts = Some r)
   \<and> (\<forall>ts r. parseMembers numVal n ts = Some r \<longrightarrow> parseMembers numVal (Suc n) ts = Some r)"
proof (induction n)
  case 0
  show ?case by simp
next
  case (Suc n)
  then have IHv: "\<And>ts r. parseValue numVal n ts = Some r \<Longrightarrow> parseValue numVal (Suc n) ts = Some r"
    and IHe: "\<And>ts r. parseElements numVal n ts = Some r \<Longrightarrow> parseElements numVal (Suc n) ts = Some r"
    and IHm: "\<And>ts r. parseMembers numVal n ts = Some r \<Longrightarrow> parseMembers numVal (Suc n) ts = Some r"
    by blast+
  have v: "parseValue numVal (Suc (Suc n)) ts = Some r" if h: "parseValue numVal (Suc n) ts = Some r" for ts r
  proof (cases ts)
    case Nil
    with h show ?thesis by (simp del: parseElements.simps parseMembers.simps)
  next
    case (Cons t r0)
    show ?thesis
    proof (cases t)
      case LBracket
      show ?thesis
      proof (cases r0)
        case Nil
        with h Cons LBracket show ?thesis
          by (auto simp del: parseElements.simps parseMembers.simps dest!: IHe)
      next
        case (Cons t2 r1)
        with h \<open>ts = t # r0\<close> LBracket show ?thesis
          by (cases t2) (auto simp del: parseElements.simps parseMembers.simps dest!: IHe)
      qed
    next
      case LBrace
      show ?thesis
      proof (cases r0)
        case Nil
        with h Cons LBrace show ?thesis
          by (auto simp del: parseElements.simps parseMembers.simps dest!: IHm)
      next
        case (Cons t2 r1)
        with h \<open>ts = t # r0\<close> LBrace show ?thesis
          by (cases t2) (auto simp del: parseElements.simps parseMembers.simps dest!: IHm)
      qed
    qed (use h Cons in \<open>simp_all del: parseElements.simps parseMembers.simps\<close>)
  qed
  have e: "parseElements numVal (Suc (Suc n)) ts = Some r"
    if h: "parseElements numVal (Suc n) ts = Some r" for ts r
  proof -
    have unf: "parseElements numVal (Suc k) ts =
        (case parseValue numVal k ts of
           None \<Rightarrow> None
         | Some (v, r) \<Rightarrow>
             (case r of
                RBracket # r' \<Rightarrow> Some ([v], r')
              | Comma # r' \<Rightarrow> map_option (\<lambda>(vs, r''). (v # vs, r'')) (parseElements numVal k r')
              | _ \<Rightarrow> None))" for k
      by (rule parseElements.simps)
    from h obtain x r1 where pv: "parseValue numVal n ts = Some (x, r1)"
      by (cases "parseValue numVal n ts") (auto simp: unf [of n] simp del: parseValue.simps parseElements.simps)
    then have pv': "parseValue numVal (Suc n) ts = Some (x, r1)" by (rule IHv)
    show ?thesis
    proof (cases r1)
      case Nil
      with h pv show ?thesis by (simp add: unf [of n] del: parseValue.simps parseElements.simps)
    next
      case (Cons t r')
      with h pv pv' show ?thesis
        by (cases t)
          (auto simp: unf [of n] unf [of "Suc n"] simp del: parseValue.simps parseElements.simps dest!: IHe)
    qed
  qed
  have m: "parseMembers numVal (Suc (Suc n)) ts = Some r"
    if h: "parseMembers numVal (Suc n) ts = Some r" for ts r
  proof -
    have unf: "parseMembers numVal (Suc k) us =
        (case us of
           TStr key # Colon # r \<Rightarrow>
             (case parseValue numVal k r of
                None \<Rightarrow> None
              | Some (v, r') \<Rightarrow>
                  (case r' of
                     RBrace # r'' \<Rightarrow> Some ([(key, v)], r'')
                   | Comma # r'' \<Rightarrow>
                       map_option (\<lambda>(ms, r'''). ((key, v) # ms, r''')) (parseMembers numVal k r'')
                   | _ \<Rightarrow> None))
         | _ \<Rightarrow> None)" for k us
      by (rule parseMembers.simps)
    from h obtain key r0 where ts: "ts = TStr key # Colon # r0"
      by (auto simp: unf [of n] simp del: parseMembers.simps parseValue.simps split: list.splits token.splits)
    from h ts obtain x r1 where pv: "parseValue numVal n r0 = Some (x, r1)"
      by (cases "parseValue numVal n r0") (auto simp: unf [of n] simp del: parseMembers.simps parseValue.simps)
    then have pv': "parseValue numVal (Suc n) r0 = Some (x, r1)" by (rule IHv)
    show ?thesis
    proof (cases r1)
      case Nil
      with h ts pv show ?thesis by (simp add: unf [of n] del: parseMembers.simps parseValue.simps)
    next
      case (Cons t r')
      with h ts pv pv' show ?thesis
        by (cases t)
          (auto simp: unf [of n] unf [of "Suc n"] simp del: parseMembers.simps parseValue.simps dest!: IHm)
    qed
  qed
  show ?case using v e m by blast
qed

lemma parseValue_more_fuel:
  "parseValue numVal n ts = Some r \<Longrightarrow> n \<le> m \<Longrightarrow> parseValue numVal m ts = Some r"
proof (induction m)
  case 0
  then show ?case by simp
next
  case (Suc m)
  show ?case
  proof (cases "n = Suc m")
    case True
    with Suc.prems show ?thesis by simp
  next
    case False
    with Suc have "parseValue numVal m ts = Some r" by simp
    then show ?thesis using parse_more_fuel_step [of numVal m] by blast
  qed
qed

subsection \<open>The JSON model reads back what it writes for a collection\<close>

lemma hexVal_hexDigit: "n < 16 \<Longrightarrow> hexVal (hexDigit n) = Some n"
proof -
  assume "n < 16"
  then consider "n = 0" | "n = 1" | "n = 2" | "n = 3" | "n = 4" | "n = 5" | "n = 6" | "n = 7"
    | "n = 8" | "n = 9" | "n = 10" | "n = 11" | "n = 12" | "n = 13" | "n = 14" | "n = 15"
    by atomize_elim arith
  then show ?thesis
    by cases (simp_all add: hexVal_def hexDigit_def)
qed

lemma hex4_control:
  assumes "n < 256"
  shows "hex4 (CHR ''0'') (CHR ''0'') (hexDigit (n div 16)) (hexDigit (n mod 16)) = Some n"
proof -
  have z: "hexVal (CHR ''0'') = Some 0" by (simp add: hexVal_def)
  have hi: "hexVal (hexDigit (n div 16)) = Some (n div 16)"
    using assms by (intro hexVal_hexDigit) simp
  have lo: "hexVal (hexDigit (n mod 16)) = Some (n mod 16)"
    by (intro hexVal_hexDigit) simp
  show ?thesis by (simp add: hex4_def z hi lo)
qed

lemma scanString_quoteChar: "scanString (quoteChar c @ rest) = consChar c (scanString rest)"
proof -
  let ?n = "of_char c :: nat"
  have n256: "?n < 256" by simp
  have same: "char_of ?n = c" by simp
  consider (backspace) "c = CHR 0x08" | (tab) "c = CHR 0x09" | (newline) "c = CHR 0x0A"
    | (formfeed) "c = CHR 0x0C" | (return) "c = CHR 0x0D" | (quote) "c = CHR 0x22"
    | (backslash) "c = CHR 0x5C"
    | (control) "c \<noteq> CHR 0x08" "c \<noteq> CHR 0x09" "c \<noteq> CHR 0x0A" "c \<noteq> CHR 0x0C" "c \<noteq> CHR 0x0D"
        "c \<noteq> CHR 0x22" "c \<noteq> CHR 0x5C" "?n < 0x20"
    | (plain) "c \<noteq> CHR 0x08" "c \<noteq> CHR 0x09" "c \<noteq> CHR 0x0A" "c \<noteq> CHR 0x0C" "c \<noteq> CHR 0x0D"
        "c \<noteq> CHR 0x22" "c \<noteq> CHR 0x5C" "\<not> ?n < 0x20"
    by blast
  then show ?thesis
  proof cases
    case control
    then have q: "quoteChar c = [CHR 0x5C, CHR ''u'', CHR ''0'', CHR ''0'',
         hexDigit (?n div 16), hexDigit (?n mod 16)]"
      by (simp add: quoteChar_def)
    show ?thesis
      unfolding q using hex4_control [OF n256] same by simp
  next
    case plain
    then show ?thesis by (simp add: quoteChar_def)
  qed (simp_all add: quoteChar_def unescape_def)
qed

lemma scanString_quoted:
  "scanString (concat (map quoteChar s) @ CHR 0x22 # rest) = Some (s, rest)"
  by (induction s) (simp_all add: scanString_quoteChar consChar_def)

lemma nextToken_quoted: "nextToken (quoteJSONString s @ rest) = Some (TStr s, rest)"
  by (simp add: nextToken_def quoteJSONString_def scanString_quoted)

lemma lex_quoted: "tokenize (quoteJSONString s @ rest) = consTok (TStr s) (tokenize rest)"
proof -
  have "quoteJSONString s @ rest = CHR 0x22 # (concat (map quoteChar s) @ CHR 0x22 # rest)"
    by (simp add: quoteJSONString_def)
  moreover have "\<not> isJsonWs (CHR 0x22)" by (simp add: isJsonWs_def)
  ultimately show ?thesis
    using nextToken_quoted [of s rest] by simp
qed

lemma lex_punct:
  "tokenize (CHR ''['' # r) = consTok LBracket (tokenize r)"
  "tokenize (CHR '']'' # r) = consTok RBracket (tokenize r)"
  "tokenize (CHR ''{'' # r) = consTok LBrace (tokenize r)"
  "tokenize (CHR ''}'' # r) = consTok RBrace (tokenize r)"
  "tokenize (CHR '':'' # r) = consTok Colon (tokenize r)"
  "tokenize (CHR '','' # r) = consTok Comma (tokenize r)"
  by (simp_all add: isJsonWs_def nextToken_def)

declare tokenize.simps(2) [simp del]

lemma consTok_Some: "consTok t (Some ts) = Some (t # ts)"
  by (simp add: consTok_def)

lemma consTok_None: "consTok t None = None"
  by (simp add: consTok_def)

lemma lex_book:
  "tokenize (jsonStringify numText (bookToJS b) @ rest) = map_option ((@) (bookTokens b)) (tokenize rest)"
proof (cases "tokenize rest")
  case None
  then show ?thesis
    by (simp add: bookToJS_def lex_punct lex_quoted consTok_None)
next
  case (Some ts)
  then show ?thesis
    by (simp add: bookToJS_def bookTokens_def lex_punct lex_quoted consTok_Some)
qed

lemma lex_books:
  "tokenize rest = Some ts \<Longrightarrow>
   tokenize (join '','' (map (\<lambda>b. jsonStringify numText (bookToJS b)) bs) @ rest)
     = Some (sepTokens bs @ ts)"
proof (induction bs rule: sepTokens.induct)
  case 1
  then show ?case by simp
next
  case (2 b)
  then show ?case by (simp add: lex_book)
next
  case (3 b c bs)
  then show ?case by (simp add: lex_book lex_punct consTok_Some)
qed

lemma lex_array:
  "tokenize (jsonStringify numText (JArr (map bookToJS bs))) = Some (LBracket # sepTokens bs @ [RBracket])"
proof -
  have "tokenize '']'' = Some [RBracket]" by (simp add: lex_punct consTok_Some)
  then have "tokenize (join '','' (map (\<lambda>b. jsonStringify numText (bookToJS b)) bs) @ '']'')
      = Some (sepTokens bs @ [RBracket])"
    by (rule lex_books)
  then show ?thesis by (simp add: lex_punct consTok_Some comp_def)
qed

lemma parse_book:
  "parseValue numVal (Suc (Suc (Suc (Suc (Suc (Suc (Suc (Suc (Suc k))))))))) (bookTokens b @ rest)
     = Some (bookToJS b, rest)"
  by (simp add: bookTokens_def bookToJS_def)

lemma parse_book_fuel:
  assumes "9 \<le> n"
  shows "parseValue numVal n (bookTokens b @ rest) = Some (bookToJS b, rest)"
proof -
  from assms obtain k where "n = 9 + k" using le_Suc_ex by blast
  then have "n = Suc (Suc (Suc (Suc (Suc (Suc (Suc (Suc (Suc k))))))))" by simp
  then show ?thesis by (simp only: parse_book)
qed

lemma parse_elements:
  "bs \<noteq> [] \<Longrightarrow> length bs + 9 \<le> n \<Longrightarrow>
   parseElements numVal n (sepTokens bs @ RBracket # rest) = Some (map bookToJS bs, rest)"
proof (induction bs arbitrary: n rule: sepTokens.induct)
  case 1
  then show ?case by simp
next
  case (2 b)
  then obtain m where n: "n = Suc m" and m: "9 \<le> m" by (cases n) auto
  show ?case by (simp add: n parse_book_fuel [OF m])
next
  case (3 b c bs)
  then obtain m where n: "n = Suc m" and m: "9 \<le> m" and l: "length (c # bs) + 9 \<le> m"
    by (cases n) auto
  have rest: "parseElements numVal m (sepTokens (c # bs) @ RBracket # rest)
      = Some (map bookToJS (c # bs), rest)"
    using l by (intro "3.IH") simp_all
  show ?case by (simp add: n parse_book_fuel [OF m] rest)
qed

lemma length_bookTokens: "length (bookTokens b) = 29"
  by (simp add: bookTokens_def)

lemma length_sepTokens: "bs \<noteq> [] \<Longrightarrow> 29 * length bs \<le> length (sepTokens bs)"
  by (induction bs rule: sepTokens.induct) (simp_all add: length_bookTokens)

lemma sepTokens_starts_with_brace:
  "bs \<noteq> [] \<Longrightarrow> \<exists>ts. sepTokens bs = LBrace # ts"
  by (induction bs rule: sepTokens.induct) (simp_all add: bookTokens_def)

lemma jsonParse_books:
  "jsonParse numVal (jsonStringify numText (JArr (map bookToJS bs))) = Inr (JArr (map bookToJS bs))"
proof (cases "bs = []")
  case True
  then show ?thesis by (simp add: jsonParse_def lex_punct consTok_Some)
next
  case False
  let ?ts = "LBracket # sepTokens bs @ [RBracket]"
  obtain ts where ts: "sepTokens bs = LBrace # ts"
    using sepTokens_starts_with_brace [OF False] by blast
  have fuel: "length bs + 9 \<le> length (sepTokens bs) + 1"
    using length_sepTokens [OF False] False by (cases bs) simp_all
  have el: "parseElements numVal (length (sepTokens bs) + 1) (sepTokens bs @ [RBracket])
      = Some (map bookToJS bs, [])"
    using False fuel by (rule parse_elements)
  have pv: "parseValue numVal (length ?ts) ?ts = Some (JArr (map bookToJS bs), [])"
    using el by (simp add: ts)
  have "jsonParse numVal (jsonStringify numText (JArr (map bookToJS bs))) =
          (case parseValue numVal (length ?ts) ?ts of
             Some (v, []) \<Rightarrow> Inr v
           | _ \<Rightarrow> Inl syntaxError)"
    by (simp only: jsonParse_def lex_array option.case)
  also have "\<dots> = Inr (JArr (map bookToJS bs))"
    by (simp only: pv option.case prod.case list.case)
  finally show ?thesis .
qed

lemma jsonStringify_array_nonempty: "jsonStringify numText (JArr vs) \<noteq> []"
  by simp

lemma inj_bookToJS: "inj bookToJS"
proof (rule injI)
  fix a b :: Book
  assume "bookToJS a = bookToJS b"
  then have "id_book a = id_book b" "title a = title b" "author a = author b"
    "publishedDate a = publishedDate b" "description a = description b"
    "thumbnail a = thumbnail b" "statusString (status a) = statusString (status b)"
    by (simp_all add: bookToJS_def)
  moreover from this have "status a = status b" by (cases "status a"; cases "status b") simp_all
  ultimately show "a = b" by simp
qed

subsection \<open>Load after save\<close>

lemma load_after_stored_text:
  assumes written:
      "setItem P storage STORAGE_KEY (JSON_stringify P (JArr (map bookToJS bs)))
         = Inr (storage(STORAGE_KEY \<mapsto> JSON_stringify P (JArr (map bookToJS bs))))"
    and nonempty: "JSON_stringify P (JArr (map bookToJS bs)) \<noteq> []"
    and codec: "JSON_parse P (JSON_stringify P (JArr (map bookToJS bs))) = Inr (JArr (map bookToJS bs))"
  shows "books (fst (loadInitialState P (fst (saveBooks P storage bs)))) = map bookToJS bs
       \<and> loadInitialState P (fst (saveBooks P storage bs)) =
           (\<lparr>books = map bookToJS bs, searchResults = [], isLoading = False, error = None,
             currentlyReading = map bookToJS (filter (\<lambda>b. status b = CurrentlyReading) bs),
             wantToRead = map bookToJS (filter (\<lambda>b. status b = WantToRead) bs),
             haveRead = map bookToJS (filter (\<lambda>b. status b = HaveRead) bs)\<rparr>, [])"
proof -
  let ?text = "JSON_stringify P (JArr (map bookToJS bs))"
  have saved: "fst (saveBooks P storage bs) = storage(STORAGE_KEY \<mapsto> ?text)"
    using written by (simp add: saveBooks_def)
  have slot: "(storage(STORAGE_KEY \<mapsto> ?text)) STORAGE_KEY = Some ?text" by simp
  have "loadInitialState P (storage(STORAGE_KEY \<mapsto> ?text)) =
          (case computeDerivedArraysJS (map bookToJS bs) of
             Inl e \<Rightarrow> (initialState, [ConsoleError ''Failed to load books from localStorage:'' e])
           | Inr d \<Rightarrow> (spreadDerived d (initialState\<lparr>books := map bookToJS bs\<rparr>), []))"
    using slot nonempty codec by (rule loadInitialState_array)
  then have "loadInitialState P (fst (saveBooks P storage bs)) =
           (\<lparr>books = map bookToJS bs, searchResults = [], isLoading = False, error = None,
             currentlyReading = map bookToJS (filter (\<lambda>b. status b = CurrentlyReading) bs),
             wantToRead = map bookToJS (filter (\<lambda>b. status b = WantToRead) bs),
             haveRead = map bookToJS (filter (\<lambda>b. status b = HaveRead) bs)\<rparr>, [])"
    by (simp add: saved computeDerivedArraysJS_books spreadDerived_def initialState_def)
  then show ?thesis by simp
qed

text \<open>
  C4, as amended. With the JSON functions of the model, for every list \<open>bs\<close> of books:
  when the storage takes the write, loading after saving \<open>bs\<close> gives back \<open>bs\<close>; the
  loaded \<open>books\<close> are the objects of \<open>bs\<close> in the same order, the derived views are their
  filters and nothing is logged. Different books are different objects, so the loaded
  sequence determines \<open>bs\<close>. When the storage rejects the write, the save leaves the storage
  as it was, so a load reads the old content.
\<close>

theorem save_then_load_roundtrip:
  "(store storage STORAGE_KEY (jsonStringify numText (JArr (map bookToJS bs)))
        = Inr (storage(STORAGE_KEY \<mapsto> jsonStringify numText (JArr (map bookToJS bs))))
      \<longrightarrow>
        books (fst (loadInitialState (jsonHost numText numVal store)
                 (fst (saveBooks (jsonHost numText numVal store) storage bs)))) = map bookToJS bs
        \<and> loadInitialState (jsonHost numText numVal store)
              (fst (saveBooks (jsonHost numText numVal store) storage bs)) =
            (\<lparr>books = map bookToJS bs, searchResults = [], isLoading = False, error = None,
              currentlyReading = map bookToJS (filter (\<lambda>b. status b = CurrentlyReading) bs),
              wantToRead = map bookToJS (filter (\<lambda>b. status b = WantToRead) bs),
              haveRead = map bookToJS (filter (\<lambda>b. status b = HaveRead) bs)\<rparr>, []))
   \<and> (store storage STORAGE_KEY (jsonStringify numText (JArr (map bookToJS bs))) = Inl e
      \<longrightarrow> fst (saveBooks (jsonHost numText numVal store) storage bs) = storage)
   \<and> inj bookToJS"
proof (intro conjI impI)
  let ?H = "jsonHost numText numVal store"
  let ?text = "jsonStringify numText (JArr (map bookToJS bs))"
  assume stored: "store storage STORAGE_KEY ?text = Inr (storage(STORAGE_KEY \<mapsto> ?text))"
  have written: "setItem ?H storage STORAGE_KEY (JSON_stringify ?H (JArr (map bookToJS bs)))
      = Inr (storage(STORAGE_KEY \<mapsto> JSON_stringify ?H (JArr (map bookToJS bs))))"
    using stored by (simp add: jsonHost_def)
  have nonempty: "JSON_stringify ?H (JArr (map bookToJS bs)) \<noteq> []"
    by (simp add: jsonHost_def)
  have codec: "JSON_parse ?H (JSON_stringify ?H (JArr (map bookToJS bs))) = Inr (JArr (map bookToJS bs))"
    using jsonParse_books [of numVal numText bs] by (simp add: jsonHost_def)
  from load_after_stored_text [OF written nonempty codec]
  show "books (fst (loadInitialState ?H (fst (saveBooks ?H storage bs)))) = map bookToJS bs"
    and "loadInitialState ?H (fst (saveBooks ?H storage bs)) =
            (\<lparr>books = map bookToJS bs, searchResults = [], isLoading = False, error = None,
              currentlyReading = map bookToJS (filter (\<lambda>b. status b = CurrentlyReading) bs),
              wantToRead = map bookToJS (filter (\<lambda>b. status b = WantToRead) bs),
              haveRead = map bookToJS (filter (\<lambda>b. status b = HaveRead) bs)\<rparr>, [])"
    by blast+
next
  assume "store storage STORAGE_KEY (jsonStringify numText (JArr (map bookToJS bs))) = Inl e"
  then show "fst (saveBooks (jsonHost numText numVal store) storage bs) = storage"
    by (simp add: saveBooks_def jsonHost_def)
next
  show "inj bookToJS" by (rule inj_bookToJS)
qed

text \<open>
  The theorem at a storage that takes the write and the collection of \<open>mockBook\<close> and
  \<open>readingBook\<close>, and at a full storage that already holds the text \<^verbatim>\<open>[]\<close>.
\<close>

theorem save_then_load_roundtrip_witness:
  "fst (saveBooks acceptingHost Map.empty [mockBook]) = [STORAGE_KEY \<mapsto> mockBookText]
   \<and> books (fst (loadInitialState acceptingHost
                (fst (saveBooks acceptingHost Map.empty [mockBook, readingBook]))))
       = [bookToJS mockBook, bookToJS readingBook]
   \<and> fst (saveBooks fullHost [STORAGE_KEY \<mapsto> ''[]''] [mockBook]) = [STORAGE_KEY \<mapsto> ''[]'']"
proof -
  let ?take = "\<lambda>storage key text. Inr (storage(key \<mapsto> text)) :: thrown + Storage"
  let ?reject = "\<lambda>(storage :: Storage) (key :: string) (text :: string).
     Inl (DOMExceptionObject ''QuotaExceededError'' ''The quota has been exceeded.'') :: thrown + Storage"
  have stringified: "jsonStringify (\<lambda>r. ''0'') (JArr [bookToJS mockBook]) = mockBookText"
    by (simp add: bookToJS_def mockBook_def mockBookText_def quoteJSONString_def quoteChar_def)
  have one: "fst (saveBooks acceptingHost Map.empty [mockBook]) = [STORAGE_KEY \<mapsto> mockBookText]"
    using stringified by (simp add: saveBooks_def acceptingHost_def jsonHost_def)
  have two: "books (fst (loadInitialState acceptingHost
                (fst (saveBooks acceptingHost Map.empty [mockBook, readingBook]))))
       = [bookToJS mockBook, bookToJS readingBook]"
    using save_then_load_roundtrip
      [where store = ?take and storage = Map.empty and bs = "[mockBook, readingBook]"
         and numText = "\<lambda>r. ''0''" and numVal = "\<lambda>lexeme. 0"]
    by (simp add: acceptingHost_def)
  have three: "fst (saveBooks fullHost [STORAGE_KEY \<mapsto> ''[]''] [mockBook]) = [STORAGE_KEY \<mapsto> ''[]'']"
    using save_then_load_roundtrip
      [where store = ?reject and storage = "[STORAGE_KEY \<mapsto> ''[]'']" and bs = "[mockBook]"
         and numText = "\<lambda>r. ''0''" and numVal = "\<lambda>lexeme. 0"
         and e = "DOMExceptionObject ''QuotaExceededError'' ''The quota has been exceeded.''"]
    by (simp add: fullHost_def)
  show ?thesis using one two three by blast
qed

text \<open>
  C4 as stated promises the round trip for every sequence. With a full storage
  \<^verbatim>\<open>setItem\<close> throws a QuotaExceededError; the save logs it, dispatches
  \<^verbatim>\<open>SET_ERROR\<close> and leaves the storage empty, and the next load returns no book where one
  was saved.
\<close>

theorem rejected_write_roundtrip_counterexample:
  "saveBooks fullHost Map.empty [mockBook] =
     (Map.empty,
      [ConsoleError ''Failed to save books to localStorage:''
         (DOMExceptionObject ''QuotaExceededError'' ''The quota has been exceeded.''),
       Dispatch (SET_ERROR (Some ''Storage quota exceeded. Please remove some books.''))])
   \<and> books (fst (loadInitialState fullHost (fst (saveBooks fullHost Map.empty [mockBook])))) = []
   \<and> map bookToJS [mockBook] \<noteq> []"
  by (simp add: saveBooks_def fullHost_def jsonHost_def loadInitialState_def loadAttempt_def
      initialState_def)

text \<open>
  C5, as amended. \<^verbatim>\<open>loadInitialState\<close> returns a state whatever the slot holds: what
  the \<^verbatim>\<open>try\<close> block throws is caught, logged, and answered with the empty state. An
  absent key and an empty text give the empty state and no log entry. A text that
  \<^verbatim>\<open>JSON.parse\<close> rejects gives the empty state and one logged diagnostic. A text that
  parses to a value that is no array gives the empty state and no log entry. A text that
  parses to an array gives the state with that array as \<open>books\<close>, unless computing the
  derived views throws (an element is \<^verbatim>\<open>null\<close>), which is caught and logged like a
  parse failure.
\<close>

theorem load_falls_back_to_empty:
  "(loadAttempt P storage = Inl e \<longrightarrow>
      loadInitialState P storage =
        (initialState, [ConsoleError ''Failed to load books from localStorage:'' e]))
   \<and> (storage STORAGE_KEY = None \<longrightarrow> loadInitialState P storage = (initialState, []))
   \<and> (storage STORAGE_KEY = Some [] \<longrightarrow> loadInitialState P storage = (initialState, []))
   \<and> (storage STORAGE_KEY = Some blob \<and> blob \<noteq> [] \<and> JSON_parse P blob = Inl e \<longrightarrow>
      loadInitialState P storage =
        (initialState, [ConsoleError ''Failed to load books from localStorage:'' e]))
   \<and> (storage STORAGE_KEY = Some blob \<and> JSON_parse P blob = Inr v \<and> (\<forall>bs. v \<noteq> JArr bs) \<longrightarrow>
      loadInitialState P storage = (initialState, []))
   \<and> (storage STORAGE_KEY = Some blob \<and> blob \<noteq> [] \<and> JSON_parse P blob = Inr (JArr vs) \<longrightarrow>
      loadInitialState P storage =
        (case computeDerivedArraysJS vs of
           Inl x \<Rightarrow> (initialState, [ConsoleError ''Failed to load books from localStorage:'' x])
         | Inr d \<Rightarrow> (spreadDerived d (initialState\<lparr>books := vs\<rparr>), [])))"
proof -
  have thrown: "loadAttempt P storage = Inl e \<longrightarrow>
      loadInitialState P storage =
        (initialState, [ConsoleError ''Failed to load books from localStorage:'' e])"
    by (simp add: loadInitialState_def)
  show ?thesis
    using thrown loadInitialState_absent [of storage P] loadInitialState_empty_text [of storage P]
      loadInitialState_parse_fails [of storage blob P e]
      loadInitialState_not_array [of storage blob P v]
      loadInitialState_array [of storage blob P vs]
    by blast
qed

text \<open>
  The theorem at an empty storage, an empty text, the test suite's \<^verbatim>\<open>invalid json\<close>,
  the text \<^verbatim>\<open>{}\<close> and the text \<^verbatim>\<open>[null]\<close>.
\<close>

theorem load_falls_back_to_empty_witness:
  "loadInitialState examplePlatform Map.empty = (initialState, [])
   \<and> loadInitialState examplePlatform [STORAGE_KEY \<mapsto> []] = (initialState, [])
   \<and> JSON_parse examplePlatform ''invalid json''
       = Inl (ErrorObject ''SyntaxError'' ''Unexpected token i in JSON at position 0'')
   \<and> loadInitialState examplePlatform [STORAGE_KEY \<mapsto> ''invalid json''] =
       (initialState, [ConsoleError ''Failed to load books from localStorage:''
          (ErrorObject ''SyntaxError'' ''Unexpected token i in JSON at position 0'')])
   \<and> JSON_parse examplePlatform ''{}'' = Inr (JObj [])
   \<and> loadInitialState examplePlatform [STORAGE_KEY \<mapsto> ''{}''] = (initialState, [])
   \<and> JSON_parse examplePlatform ''[null]'' = Inr (JArr [JNull])
   \<and> loadInitialState examplePlatform [STORAGE_KEY \<mapsto> ''[null]''] =
       (initialState, [ConsoleError ''Failed to load books from localStorage:''
          (ErrorObject ''TypeError'' ''Cannot read properties of null'')])"
proof -
  have differ: "''invalid json'' \<noteq> mockBookText" by (simp add: mockBookText_def)
  have bad: "JSON_parse examplePlatform ''invalid json''
       = Inl (ErrorObject ''SyntaxError'' ''Unexpected token i in JSON at position 0'')"
    using differ by (simp add: examplePlatform_def)
  have obj: "JSON_parse examplePlatform ''{}'' = Inr (JObj [])"
    by (simp add: examplePlatform_def)
  have arr: "JSON_parse examplePlatform ''[null]'' = Inr (JArr [JNull])"
    by (simp add: examplePlatform_def)
  have der: "computeDerivedArraysJS [JNull]
       = Inl (ErrorObject ''TypeError'' ''Cannot read properties of null'')"
    by (simp add: computeDerivedArraysJS_def)
  have att: "loadAttempt examplePlatform [STORAGE_KEY \<mapsto> ''invalid json'']
       = Inl (ErrorObject ''SyntaxError'' ''Unexpected token i in JSON at position 0'')"
    using bad by (simp add: loadAttempt_def)
  show ?thesis
    using load_falls_back_to_empty [where P = examplePlatform and storage = Map.empty]
      load_falls_back_to_empty [where P = examplePlatform and storage = "[STORAGE_KEY \<mapsto> []]"]
      load_falls_back_to_empty [where P = examplePlatform
        and storage = "[STORAGE_KEY \<mapsto> ''invalid json'']" and blob = "''invalid json''"
        and e = "ErrorObject ''SyntaxError'' ''Unexpected token i in JSON at position 0''"]
      load_falls_back_to_empty [where P = examplePlatform
        and storage = "[STORAGE_KEY \<mapsto> ''{}'']" and blob = "''{}''" and v = "JObj []"]
      load_falls_back_to_empty [where P = examplePlatform
        and storage = "[STORAGE_KEY \<mapsto> ''[null]'']" and blob = "''[null]''" and vs = "[JNull]"]
      bad obj arr der att
    by simp
qed

text \<open>
  C5 as stated has a diagnostic logged when the text does not parse to an array. The text
  \<^verbatim>\<open>null\<close> parses to \<^verbatim>\<open>null\<close>, the array test fails without throwing, and nothing
  is logged.
\<close>

theorem non_array_blob_logs_counterexample:
  "JSON_parse examplePlatform ''null'' = Inr JNull
   \<and> loadInitialState examplePlatform [STORAGE_KEY \<mapsto> ''null''] = (initialState, [])
   \<and> snd (loadInitialState examplePlatform [STORAGE_KEY \<mapsto> ''null'']) = []"
  by (simp add: examplePlatform_def loadInitialState_def loadAttempt_def)

end
